theory Spec2Isabelle
  imports Complex_Main "HOL-Library.Sublist" "HOL-Library.Multiset"
begin

section \<open>The Deepseek model of aphrodite-engine: a shallow embedding\<close>

text \<open>
  The source is \<^verbatim>\<open>aphrodite/modeling/models/deepseek.py\<close>. Every class of the file is a
  record, every constructor and method a function. A Python exception is a value of
  \<open>error\<close>; a constructor that allocates parameters takes the heap and returns the
  heap it leaves behind, also when it raises, so that the order of checks and
  allocations can be read off the result.
\<close>

subsection \<open>Errors\<close>

datatype error =
    ValueError
  | AssertionError
  | ZeroDivisionError
  | TypeError
  | RuntimeError
  | AttributeError string
  | KeyError string

subsection \<open>Tensors over an explicit store\<close>

text \<open>
  A storage is a flat buffer of numbers; the heap lists the storages by their index.
  A tensor is a view: the storage it reads, the offset of its first element and its
  shape (row-major, contiguous). Two tensors alias when their views overlap in one
  storage. Element values are real numbers: the rounding of the machine's floating
  point formats is not modelled.
\<close>

type_synonym heap = "real list list"

record tensor =
  storage :: nat
  offset :: nat
  shape :: "nat list"

definition numel :: "tensor \<Rightarrow> nat" where
  "numel t = prod_list (shape t)"

definition tensor_data :: "heap \<Rightarrow> tensor \<Rightarrow> real list" where
  "tensor_data h t = take (numel t) (drop (offset t) (h ! storage t))"

definition tensor_get :: "heap \<Rightarrow> tensor \<Rightarrow> nat \<Rightarrow> real" where
  "tensor_get h t j = h ! storage t ! (offset t + j)"

definition tensor_set :: "tensor \<Rightarrow> nat \<Rightarrow> real \<Rightarrow> heap \<Rightarrow> heap" where
  "tensor_set t j v h = h[storage t := (h ! storage t)[offset t + j := v]]"

text \<open>\<^verbatim>\<open>t.copy_(src)\<close>: the in-place write of a whole tensor, element by element.\<close>

fun copy_from :: "tensor \<Rightarrow> nat \<Rightarrow> real list \<Rightarrow> heap \<Rightarrow> heap" where
  "copy_from t j [] h = h"
| "copy_from t j (v # vs) h = copy_from t (Suc j) vs (tensor_set t j v h)"

definition tensor_copy :: "tensor \<Rightarrow> real list \<Rightarrow> heap \<Rightarrow> heap" where
  "tensor_copy t src h = copy_from t 0 (take (numel t) src) h"

definition valid_tensor :: "heap \<Rightarrow> tensor \<Rightarrow> bool" where
  "valid_tensor h t \<longleftrightarrow>
     storage t < length h \<and> offset t + numel t \<le> length (h ! storage t)"

text \<open>
  \<^verbatim>\<open>torch.empty(shape)\<close>: a fresh storage. Its contents are not initialised in
  PyTorch; the model fills it with zeros.
\<close>

definition torch_empty :: "nat list \<Rightarrow> heap \<Rightarrow> tensor \<times> heap" where
  "torch_empty shp h =
     (\<lparr>storage = length h, offset = 0, shape = shp\<rparr>, h @ [replicate (prod_list shp) 0])"

subsection \<open>Configuration\<close>

text \<open>
  \<open>linear_method\<close> is \<^verbatim>\<open>Optional[LinearMethodBase]\<close>; the only thing the file asks of it
  is its \<^verbatim>\<open>quant_config\<close>, with the two predicates \<^verbatim>\<open>merge_weight()\<close> and
  \<^verbatim>\<open>rope_style()\<close>.
\<close>

record quant_config =
  merge_weight :: bool
  rope_style :: "bool option"

type_synonym linear_method = "quant_config option"

text \<open>
  The fields of \<^verbatim>\<open>PretrainedConfig\<close> that the file reads. Sizes and counts are natural
  numbers; the two layer-index parameters are Python integers.
\<close>

record config =
  hidden_size :: nat
  intermediate_size :: nat
  moe_intermediate_size :: nat
  hidden_act :: string
  n_routed_experts :: "nat option"
  num_experts_per_tok :: nat
  n_shared_experts :: "nat option"
  norm_topk_prob :: bool
  first_k_dense_replace :: int
  moe_layer_freq :: int
  num_attention_heads :: nat
  num_key_value_heads :: nat

subsection \<open>The linear layers\<close>

text \<open>
  Modelled from the spec: the layers of \<^verbatim>\<open>aphrodite.modeling.layers.linear\<close>
  (\<^verbatim>\<open>ColumnParallelLinear\<close>, \<^verbatim>\<open>MergedColumnParallelLinear\<close>, \<^verbatim>\<open>QKVParallelLinear\<close>,
  \<^verbatim>\<open>RowParallelLinear\<close>, \<^verbatim>\<open>ReplicatedLinear\<close>) are not in the sources. Each owns one
  weight tensor of shape (out_dim, in_dim), allocated at construction, with out_dim the
  size this worker's projection returns; a row-parallel layer also records whether it
  reduces its result across the workers, which it does by default.
\<close>

record linear_layer =
  weight :: tensor
  reduce_results :: bool

definition ColumnParallelLinear :: "nat \<Rightarrow> nat \<Rightarrow> heap \<Rightarrow> linear_layer \<times> heap" where
  "ColumnParallelLinear input_size output_size h =
     (let (w, h') = torch_empty [output_size, input_size] h
      in (\<lparr>weight = w, reduce_results = False\<rparr>, h'))"

definition MergedColumnParallelLinear :: "nat \<Rightarrow> nat list \<Rightarrow> heap \<Rightarrow> linear_layer \<times> heap" where
  "MergedColumnParallelLinear input_size output_sizes h =
     (let (w, h') = torch_empty [sum_list output_sizes, input_size] h
      in (\<lparr>weight = w, reduce_results = False\<rparr>, h'))"

definition RowParallelLinear :: "nat \<Rightarrow> nat \<Rightarrow> bool \<Rightarrow> heap \<Rightarrow> linear_layer \<times> heap" where
  "RowParallelLinear input_size output_size reduce h =
     (let (w, h') = torch_empty [output_size, input_size] h
      in (\<lparr>weight = w, reduce_results = reduce\<rparr>, h'))"

definition ReplicatedLinear :: "nat \<Rightarrow> nat \<Rightarrow> heap \<Rightarrow> linear_layer \<times> heap" where
  "ReplicatedLinear input_size output_size h =
     (let (w, h') = torch_empty [output_size, input_size] h
      in (\<lparr>weight = w, reduce_results = False\<rparr>, h'))"

subsection \<open>DeepseekMLP: construction\<close>

text \<open>
  An attribute that \<^verbatim>\<open>__init__\<close> does not set is \<open>None\<close>; reading it raises
  \<^verbatim>\<open>AttributeError\<close>.
\<close>

record DeepseekMLP =
  mlp_merge_weight :: bool
  gate_proj :: "linear_layer option"
  up_proj :: "linear_layer option"
  gate_up_proj :: "linear_layer option"
  down_proj :: linear_layer

definition DeepseekMLP_init ::
  "nat \<Rightarrow> nat \<Rightarrow> string \<Rightarrow> linear_method \<Rightarrow> bool \<Rightarrow> heap \<Rightarrow> (error + DeepseekMLP) \<times> heap" where
  "DeepseekMLP_init hidden inter_size act lm reduce h =
     (let (mw, g, u, gu, h1) =
            (if lm \<noteq> None \<and> \<not> merge_weight (the lm) then
               (let (g, ha) = ColumnParallelLinear hidden inter_size h;
                    (u, hb) = ColumnParallelLinear hidden inter_size ha
                in (False, Some g, Some u, None, hb))
             else
               (let (gu, ha) = MergedColumnParallelLinear hidden [inter_size, inter_size] h
                in (True, None, None, Some gu, ha)));
          (d, h2) = RowParallelLinear inter_size hidden reduce h1
      in if act \<noteq> ''silu'' then (Inl ValueError, h2)
         else (Inr \<lparr>mlp_merge_weight = mw, gate_proj = g, up_proj = u,
                     gate_up_proj = gu, down_proj = d\<rparr>, h2))"

subsection \<open>DeepseekMoE: construction and weight packing\<close>

record DeepseekMoE =
  moe_config :: config
  tp_size :: nat
  top_k :: nat
  experts :: "DeepseekMLP list"
  w1 :: tensor
  w2 :: tensor
  gate :: linear_layer
  shared_experts :: "DeepseekMLP option"

text \<open>The list comprehension of line 124: the experts are built one after the other.\<close>

fun build_experts ::
  "nat \<Rightarrow> config \<Rightarrow> linear_method \<Rightarrow> heap \<Rightarrow> (error + DeepseekMLP list) \<times> heap" where
  "build_experts 0 cfg lm h = (Inr [], h)"
| "build_experts (Suc n) cfg lm h =
     (case DeepseekMLP_init (hidden_size cfg) (moe_intermediate_size cfg) (hidden_act cfg)
             lm False h of
        (Inl e, h1) \<Rightarrow> (Inl e, h1)
      | (Inr m, h1) \<Rightarrow>
          (case build_experts n cfg lm h1 of
             (Inl e, h2) \<Rightarrow> (Inl e, h2)
           | (Inr ms, h2) \<Rightarrow> (Inr (m # ms), h2)))"

text \<open>The first loop of \<^verbatim>\<open>pack_params\<close>: the weights of every expert, in order.\<close>

fun collect_weights :: "DeepseekMLP list \<Rightarrow> error + (tensor list \<times> tensor list)" where
  "collect_weights [] = Inr ([], [])"
| "collect_weights (e # es) =
     (case gate_up_proj e of
        None \<Rightarrow> Inl (AttributeError ''gate_up_proj'')
      | Some gu \<Rightarrow>
          (case collect_weights es of
             Inl err \<Rightarrow> Inl err
           | Inr (ws1, ws2) \<Rightarrow> Inr (weight gu # ws1, weight (down_proj e) # ws2)))"

text \<open>
  \<^verbatim>\<open>torch._utils._flatten_dense_tensors\<close> concatenates the tensors' contents into one
  fresh one-dimensional tensor (a copy); it raises on the empty list.
  \<^verbatim>\<open>_unflatten_dense_tensors\<close> returns views into the flat tensor, one per input
  tensor, each of that tensor's shape, at consecutive offsets.
\<close>

definition flatten_dense_tensors :: "tensor list \<Rightarrow> heap \<Rightarrow> (error + tensor) \<times> heap" where
  "flatten_dense_tensors ts h =
     (if ts = [] then (Inl RuntimeError, h)
      else (Inr \<lparr>storage = length h, offset = 0, shape = [sum_list (map numel ts)]\<rparr>,
            h @ [concat (map (tensor_data h) ts)]))"

fun unflatten_from :: "tensor \<Rightarrow> nat \<Rightarrow> tensor list \<Rightarrow> tensor list" where
  "unflatten_from flat off [] = []"
| "unflatten_from flat off (t # ts) =
     \<lparr>storage = storage flat, offset = offset flat + off, shape = shape t\<rparr>
       # unflatten_from flat (off + numel t) ts"

definition unflatten_dense_tensors :: "tensor \<Rightarrow> tensor list \<Rightarrow> tensor list" where
  "unflatten_dense_tensors flat ts = unflatten_from flat 0 ts"

text \<open>\<^verbatim>\<open>t.view(shape)\<close>: the same storage under another shape of the same size.\<close>

definition view :: "tensor \<Rightarrow> nat list \<Rightarrow> error + tensor" where
  "view t shp = (if prod_list shp = numel t then Inr (t\<lparr>shape := shp\<rparr>) else Inl RuntimeError)"

text \<open>
  \<^verbatim>\<open>for data, param in zip(w1s, w1): param.data = data\<close>. The parameters of \<open>w1\<close> are
  the experts' own \<^verbatim>\<open>gate_up_proj.weight\<close>, in the experts' order, so the loop rebinds
  the weight of the k-th expert to the k-th view; likewise for \<open>w2\<close> and
  \<^verbatim>\<open>down_proj.weight\<close>.
\<close>

definition set_gate_up_data :: "DeepseekMLP \<Rightarrow> tensor \<Rightarrow> DeepseekMLP" where
  "set_gate_up_data e d = e\<lparr>gate_up_proj := map_option (\<lambda>l. l\<lparr>weight := d\<rparr>) (gate_up_proj e)\<rparr>"

definition set_down_data :: "DeepseekMLP \<Rightarrow> tensor \<Rightarrow> DeepseekMLP" where
  "set_down_data e d = e\<lparr>down_proj := (down_proj e)\<lparr>weight := d\<rparr>\<rparr>"

definition pack_params ::
  "DeepseekMLP list \<Rightarrow> heap \<Rightarrow> (error + (DeepseekMLP list \<times> tensor \<times> tensor)) \<times> heap" where
  "pack_params es h =
     (case collect_weights es of
        Inl err \<Rightarrow> (Inl err, h)
      | Inr (ws1, ws2) \<Rightarrow>
          (case flatten_dense_tensors ws1 h of
             (Inl err, h1) \<Rightarrow> (Inl err, h1)
           | (Inr flat1, h1) \<Rightarrow>
               (let w1s = unflatten_dense_tensors flat1 ws1;
                    es1 = map2 set_gate_up_data es w1s
                in case view flat1 (length ws1 # shape (hd w1s)) of
                     Inl err \<Rightarrow> (Inl err, h1)
                   | Inr bank1 \<Rightarrow>
                       (case flatten_dense_tensors ws2 h1 of
                          (Inl err, h2) \<Rightarrow> (Inl err, h2)
                        | (Inr flat2, h2) \<Rightarrow>
                            (let w2s = unflatten_dense_tensors flat2 ws2;
                                 es2 = map2 set_down_data es1 w2s
                             in case view flat2 (length ws2 # shape (hd w2s)) of
                                  Inl err \<Rightarrow> (Inl err, h2)
                                | Inr bank2 \<Rightarrow> (Inr (es2, bank1, bank2), h2))))))"

text \<open>The two lists \<open>w1\<close> and \<open>w2\<close> that the first loop of \<^verbatim>\<open>pack_params\<close> collects.\<close>

definition gate_up_weights :: "DeepseekMLP list \<Rightarrow> tensor list" where
  "gate_up_weights es = map (\<lambda>e. weight (the (gate_up_proj e))) es"

definition down_weights :: "DeepseekMLP list \<Rightarrow> tensor list" where
  "down_weights es = map (\<lambda>e. weight (down_proj e)) es"

text \<open>
  Modelled from the spec: \<^verbatim>\<open>hf_downloader.default_weight_loader\<close> is not in the sources.
  A weight loader updates the parameter in place: it copies the loaded values into the
  parameter's data and leaves the parameter bound to the storage it had.
\<close>

definition default_weight_loader :: "tensor \<Rightarrow> real list \<Rightarrow> heap \<Rightarrow> heap" where
  "default_weight_loader param loaded_weight h = tensor_copy param loaded_weight h"

text \<open>\<^verbatim>\<open>bank[i]\<close>: the i-th slice of a tensor along its first dimension, a view.\<close>

definition bank_slice :: "tensor \<Rightarrow> nat \<Rightarrow> tensor" where
  "bank_slice bank i =
     \<lparr>storage = storage bank, offset = offset bank + i * prod_list (tl (shape bank)),
      shape = tl (shape bank)\<rparr>"

definition DeepseekMoE_init ::
  "config \<Rightarrow> linear_method \<Rightarrow> nat \<Rightarrow> heap \<Rightarrow> (error + DeepseekMoE) \<times> heap" where
  "DeepseekMoE_init cfg lm tp h =
     (case n_routed_experts cfg of
        None \<Rightarrow> (Inl TypeError, h)
      | Some n \<Rightarrow>
          if tp > n then (Inl ValueError, h)
          else
            (case build_experts n cfg lm h of
               (Inl e, h1) \<Rightarrow> (Inl e, h1)
             | (Inr es, h1) \<Rightarrow>
                 (case pack_params es h1 of
                    (Inl e, h2) \<Rightarrow> (Inl e, h2)
                  | (Inr (es', bank1, bank2), h2) \<Rightarrow>
                      (let (g, h3) = ReplicatedLinear (hidden_size cfg) n h2;
                           m = \<lparr>moe_config = cfg, tp_size = tp,
                                top_k = num_experts_per_tok cfg, experts = es',
                                w1 = bank1, w2 = bank2, gate = g, shared_experts = None\<rparr>
                       in case n_shared_experts cfg of
                            None \<Rightarrow> (Inr m, h3)
                          | Some ns \<Rightarrow>
                              (case DeepseekMLP_init (hidden_size cfg)
                                      (moe_intermediate_size cfg * ns) (hidden_act cfg)
                                      lm False h3 of
                                 (Inl e, h4) \<Rightarrow> (Inl e, h4)
                               | (Inr s, h4) \<Rightarrow> (Inr (m\<lparr>shared_experts := Some s\<rparr>), h4))))))"

subsection \<open>DeepseekAttention: construction\<close>

text \<open>Python's \<^verbatim>\<open>%\<close> and \<^verbatim>\<open>//\<close> raise on a zero divisor.\<close>

definition py_mod :: "nat \<Rightarrow> nat \<Rightarrow> error + nat" where
  "py_mod a b = (if b = 0 then Inl ZeroDivisionError else Inr (a mod b))"

definition py_floordiv :: "nat \<Rightarrow> nat \<Rightarrow> error + nat" where
  "py_floordiv a b = (if b = 0 then Inl ZeroDivisionError else Inr (a div b))"

record DeepseekAttention =
  attn_merge_weight :: bool
  q_proj :: "linear_layer option"
  k_proj :: "linear_layer option"
  v_proj :: "linear_layer option"
  qkv_proj :: "linear_layer option"
  o_proj :: linear_layer
  total_num_heads :: nat
  num_heads :: nat
  total_num_kv_heads :: nat
  num_kv_heads :: nat
  head_dim :: nat
  q_size :: nat
  kv_size :: nat
  scaling :: real
  is_neox_style :: bool

text \<open>
  Modelled from the spec: \<^verbatim>\<open>QKVParallelLinear\<close> takes the head size and the total head
  counts and returns, on each worker, that worker's query heads followed by its key and
  its value heads.
\<close>

definition QKVParallelLinear ::
  "nat \<Rightarrow> nat \<Rightarrow> nat \<Rightarrow> nat \<Rightarrow> nat \<Rightarrow> heap \<Rightarrow> linear_layer \<times> heap" where
  "QKVParallelLinear hidden head_size total_heads total_kv_heads tp h =
     (let (w, h') = torch_empty
            [(total_heads div tp + 2 * max 1 (total_kv_heads div tp)) * head_size, hidden] h
      in (\<lparr>weight = w, reduce_results = False\<rparr>, h'))"

text \<open>
  Lines 213 to 231, the arithmetic of \<^verbatim>\<open>__init__\<close>: the two assertions on the head
  counts, the division by the total head count and \<^verbatim>\<open>head_dim ** -0.5\<close>, which raises
  \<^verbatim>\<open>ZeroDivisionError\<close> at \<open>head_dim = 0\<close>. It returns the per-worker head count, the
  per-worker key/value head count and the head dimension.
\<close>

definition attention_sizes :: "nat \<Rightarrow> nat \<Rightarrow> nat \<Rightarrow> nat \<Rightarrow> error + (nat \<times> nat \<times> nat)" where
  "attention_sizes hidden total_heads total_kv_heads tp =
     (case py_mod total_heads tp of
        Inl e \<Rightarrow> Inl e
      | Inr r \<Rightarrow>
          if r \<noteq> 0 then Inl AssertionError
          else
            (case (if total_kv_heads \<ge> tp then py_mod total_kv_heads tp
                   else py_mod tp total_kv_heads) of
               Inl e \<Rightarrow> Inl e
             | Inr r' \<Rightarrow>
                 if r' \<noteq> 0 then Inl AssertionError
                 else
                   (case py_floordiv hidden total_heads of
                      Inl e \<Rightarrow> Inl e
                    | Inr hdim \<Rightarrow>
                        if hdim = 0 then Inl ZeroDivisionError
                        else Inr (total_heads div tp, max 1 (total_kv_heads div tp), hdim))))"

definition DeepseekAttention_init ::
  "nat \<Rightarrow> nat \<Rightarrow> nat \<Rightarrow> linear_method \<Rightarrow> nat \<Rightarrow> heap \<Rightarrow> (error + DeepseekAttention) \<times> heap" where
  "DeepseekAttention_init hidden total_heads total_kv_heads lm tp h =
     (case attention_sizes hidden total_heads total_kv_heads tp of
        Inl e \<Rightarrow> (Inl e, h)
      | Inr (nh, nkv, hdim) \<Rightarrow>
          (let qs = nh * hdim;
               kvs = nkv * hdim;
               (mw, q, k, v, qkv, h1) =
                 (if lm \<noteq> None \<and> \<not> merge_weight (the lm) then
                    (let (q, ha) = ColumnParallelLinear hidden qs h;
                         (k, hb) = ColumnParallelLinear hidden kvs ha;
                         (v, hc) = ColumnParallelLinear hidden kvs hb
                     in (False, Some q, Some k, Some v, None, hc))
                  else
                    (let (qkv, ha) = QKVParallelLinear hidden hdim total_heads total_kv_heads tp h
                     in (True, None, None, None, Some qkv, ha)));
               (out, h2) = RowParallelLinear (total_heads * hdim) hidden True h1
           in (Inr \<lparr>attn_merge_weight = mw, q_proj = q, k_proj = k, v_proj = v,
                     qkv_proj = qkv, o_proj = out, total_num_heads = total_heads,
                     num_heads = nh, total_num_kv_heads = total_kv_heads,
                     num_kv_heads = nkv, head_dim = hdim, q_size = qs, kv_size = kvs,
                     scaling = real hdim powr (- 1 / 2),
                     is_neox_style =
                       (case lm of None \<Rightarrow> True
                        | Some qc \<Rightarrow> (case rope_style qc of None \<Rightarrow> True | Some b \<Rightarrow> b))\<rparr>,
               h2)))"

subsection \<open>DeepseekDecoderLayer: construction\<close>

datatype feed_forward = Dense DeepseekMLP | MoE DeepseekMoE

record DeepseekDecoderLayer =
  self_attn :: DeepseekAttention
  mlp :: feed_forward

text \<open>
  The condition of line 328. Python's \<^verbatim>\<open>and\<close> evaluates from the left and stops at the
  first false operand, so the remainder is taken only when the first two hold; it
  raises when \<^verbatim>\<open>moe_layer_freq\<close> is zero.
\<close>

definition use_moe :: "config \<Rightarrow> int \<Rightarrow> error + bool" where
  "use_moe cfg layer_idx =
     (if n_routed_experts cfg \<noteq> None \<and> layer_idx \<ge> first_k_dense_replace cfg then
        (if moe_layer_freq cfg = 0 then Inl ZeroDivisionError
         else Inr (layer_idx mod moe_layer_freq cfg = 0))
      else Inr False)"

definition DeepseekDecoderLayer_init ::
  "config \<Rightarrow> int \<Rightarrow> linear_method \<Rightarrow> nat \<Rightarrow> heap \<Rightarrow> (error + DeepseekDecoderLayer) \<times> heap" where
  "DeepseekDecoderLayer_init cfg layer_idx lm tp h =
     (case DeepseekAttention_init (hidden_size cfg) (num_attention_heads cfg)
             (num_key_value_heads cfg) lm tp h of
        (Inl e, h1) \<Rightarrow> (Inl e, h1)
      | (Inr a, h1) \<Rightarrow>
          (case use_moe cfg layer_idx of
             Inl e \<Rightarrow> (Inl e, h1)
           | Inr True \<Rightarrow>
               (case DeepseekMoE_init cfg lm tp h1 of
                  (Inl e, h2) \<Rightarrow> (Inl e, h2)
                | (Inr m, h2) \<Rightarrow> (Inr \<lparr>self_attn = a, mlp = MoE m\<rparr>, h2))
           | Inr False \<Rightarrow>
               (case DeepseekMLP_init (hidden_size cfg) (intermediate_size cfg)
                       (hidden_act cfg) lm True h1 of
                  (Inl e, h2) \<Rightarrow> (Inl e, h2)
                | (Inr d, h2) \<Rightarrow> (Inr \<lparr>self_attn = a, mlp = Dense d\<rparr>, h2))))"

subsection \<open>Forward passes: values\<close>

text \<open>
  A hidden state is a list of tokens, each a vector of numbers (the shape
  \<^verbatim>\<open>(batch * seq, hidden)\<close> that \<^verbatim>\<open>forward\<close> works on; reshaping to and from
  \<^verbatim>\<open>(batch, seq, hidden)\<close> moves no data and is left out). An operation that raises
  returns \<open>Inl\<close>; \<open>bindE\<close> passes the first error on.
\<close>

type_synonym vec = "real list"
type_synonym mat = "real list list"

definition bindE :: "error + 'a \<Rightarrow> ('a \<Rightarrow> error + 'b) \<Rightarrow> error + 'b" where
  "bindE r f = (case r of Inl e \<Rightarrow> Inl e | Inr x \<Rightarrow> f x)"

fun mapE :: "('a \<Rightarrow> error + 'b) \<Rightarrow> 'a list \<Rightarrow> error + 'b list" where
  "mapE f [] = Inr []"
| "mapE f (x # xs) = bindE (f x) (\<lambda>y. bindE (mapE f xs) (\<lambda>ys. Inr (y # ys)))"

text \<open>
  A two-dimensional tensor read from the heap as the list of its rows.
\<close>

definition tensor_rows :: "heap \<Rightarrow> tensor \<Rightarrow> mat" where
  "tensor_rows h t =
     (case shape t of
        [r, c] \<Rightarrow> map (\<lambda>i. take c (drop (offset t + i * c) (h ! storage t))) [0..<r]
      | _ \<Rightarrow> [])"

definition dot_product :: "vec \<Rightarrow> vec \<Rightarrow> real" where
  "dot_product x y = sum_list (map2 (*) x y)"

text \<open>
  Modelled from the spec: the forward pass of a linear layer (in
  \<^verbatim>\<open>aphrodite.modeling.layers.linear\<close>, not in the sources) multiplies each token by the
  transposed weight, one output per row of the weight, and raises when the token's
  length is not the rows' length. A row-parallel layer built with \<^verbatim>\<open>reduce_results\<close>
  then reduces its output across the workers. The collective
  \<^verbatim>\<open>tensor_model_parallel_all_reduce\<close> is the parameter \<open>ar\<close>: what the reduction returns
  to this worker. Every forward pass that can reach a reduction threads the number of
  reductions this worker has performed.
\<close>

definition F_linear :: "mat \<Rightarrow> vec \<Rightarrow> error + vec" where
  "F_linear W x =
     (if list_all (\<lambda>w. length w = length x) W then Inr (map (\<lambda>w. dot_product w x) W)
      else Inl RuntimeError)"

definition linear_forward :: "heap \<Rightarrow> linear_layer \<Rightarrow> mat \<Rightarrow> error + mat" where
  "linear_forward h l x = mapE (F_linear (tensor_rows h (weight l))) x"

definition RowParallelLinear_forward ::
  "(mat \<Rightarrow> mat) \<Rightarrow> heap \<Rightarrow> linear_layer \<Rightarrow> mat \<Rightarrow> nat \<Rightarrow> (error + mat) \<times> nat" where
  "RowParallelLinear_forward ar h l x s =
     (case linear_forward h l x of
        Inl e \<Rightarrow> (Inl e, s)
      | Inr y \<Rightarrow> if reduce_results l then (Inr (ar y), Suc s) else (Inr y, s))"

text \<open>
  Modelled from the spec: \<^verbatim>\<open>SiluAndMul\<close> (in \<^verbatim>\<open>aphrodite.modeling.layers.activation\<close>)
  splits its input at the midpoint into gate and up and returns \<open>silu gate * up\<close>,
  element by element.
\<close>

definition silu :: "real \<Rightarrow> real" where
  "silu x = x / (1 + exp (- x))"

definition SiluAndMul :: "vec \<Rightarrow> vec" where
  "SiluAndMul x =
     (let d = length x div 2 in map2 (\<lambda>g u. silu g * u) (take d x) (drop d x))"

subsection \<open>DeepseekMLP: forward\<close>

text \<open>Lines 95 to 100: the projection to \<^verbatim>\<open>gate_up\<close>, in either layout.\<close>

definition mlp_gate_up :: "heap \<Rightarrow> DeepseekMLP \<Rightarrow> mat \<Rightarrow> error + mat" where
  "mlp_gate_up h m x =
     (if mlp_merge_weight m then
        (case gate_up_proj m of
           None \<Rightarrow> Inl (AttributeError ''gate_up_proj'')
         | Some l \<Rightarrow> linear_forward h l x)
      else
        (case up_proj m of
           None \<Rightarrow> Inl (AttributeError ''up_proj'')
         | Some ul \<Rightarrow>
             bindE (linear_forward h ul x)
               (\<lambda>up. case gate_proj m of
                        None \<Rightarrow> Inl (AttributeError ''gate_proj'')
                      | Some gl \<Rightarrow>
                          bindE (linear_forward h gl x)
                            (\<lambda>gate. Inr (map2 (@) gate up)))))"

definition DeepseekMLP_forward ::
  "(mat \<Rightarrow> mat) \<Rightarrow> heap \<Rightarrow> DeepseekMLP \<Rightarrow> mat \<Rightarrow> nat \<Rightarrow> (error + mat) \<times> nat" where
  "DeepseekMLP_forward ar h m x s =
     (case mlp_gate_up h m x of
        Inl e \<Rightarrow> (Inl e, s)
      | Inr gate_up \<Rightarrow> RowParallelLinear_forward ar h (down_proj m) (map SiluAndMul gate_up) s)"

subsection \<open>DeepseekMoE: routing\<close>

text \<open>
  Lines 176 to 182, for the router logits of one token. \<^verbatim>\<open>F.softmax\<close> normalises the
  exponentials over all the logits; the source computes it in float32, the model on
  real numbers, without rounding. \<^verbatim>\<open>torch.topk\<close> returns the k largest values in
  descending order with their indices, and raises when k exceeds the number of entries;
  PyTorch does not say which of several equal values it returns first, the model takes
  the one of lower index.
\<close>

definition softmax :: "vec \<Rightarrow> vec" where
  "softmax xs = map (\<lambda>x. exp x / sum_list (map exp xs)) xs"

definition topk :: "vec \<Rightarrow> nat \<Rightarrow> error + (vec \<times> nat list)" where
  "topk xs k =
     (if k > length xs then Inl RuntimeError
      else (let ps = take k (sort_key (\<lambda>(v, i). - v) (zip xs [0..<length xs]))
            in Inr (map fst ps, map snd ps)))"

definition route_token :: "bool \<Rightarrow> nat \<Rightarrow> vec \<Rightarrow> error + (vec \<times> nat list)" where
  "route_token renorm k router_logits =
     bindE (topk (softmax router_logits) k)
       (\<lambda>(routing_weights, selected_experts).
          Inr (if renorm then map (\<lambda>w. w / sum_list routing_weights) routing_weights
               else routing_weights,
               selected_experts))"

subsection \<open>DeepseekMoE: forward\<close>

text \<open>
  Modelled from the spec: the kernel \<^verbatim>\<open>fused_moe\<close> (in
  \<^verbatim>\<open>aphrodite.modeling.layers.triton_kernel\<close>, not in the sources) runs, for each token,
  the selected experts out of the two banks (gate_up projection, activation, down
  projection), multiplies each expert's output by its routing weight and sums them. It
  reads the banks only; it calls no layer of the experts and performs no reduction.
\<close>

definition expert_token :: "heap \<Rightarrow> tensor \<Rightarrow> tensor \<Rightarrow> nat \<Rightarrow> vec \<Rightarrow> error + vec" where
  "expert_token h b1 b2 e x =
     bindE (F_linear (tensor_rows h (bank_slice b1 e)) x)
       (\<lambda>gate_up. F_linear (tensor_rows h (bank_slice b2 e)) (SiluAndMul gate_up))"

definition weighted_sum :: "nat \<Rightarrow> vec \<Rightarrow> mat \<Rightarrow> vec" where
  "weighted_sum n ws ys =
     foldr (\<lambda>(w, y) acc. map2 (+) (map ((*) w) y) acc) (zip ws ys) (replicate n 0)"

definition fused_moe ::
  "heap \<Rightarrow> mat \<Rightarrow> tensor \<Rightarrow> tensor \<Rightarrow> mat \<Rightarrow> nat list list \<Rightarrow> error + mat" where
  "fused_moe h hidden_states b1 b2 routing_weights selected_experts =
     mapE (\<lambda>(x, ws, ids).
             bindE (mapE (\<lambda>e. expert_token h b1 b2 e x) ids)
               (\<lambda>ys. Inr (weighted_sum (length x) ws ys)))
       (zip hidden_states (zip routing_weights selected_experts))"

text \<open>Lines 174 to 189: router logits, routing, and the kernel on the two banks.\<close>

definition moe_routed :: "heap \<Rightarrow> DeepseekMoE \<Rightarrow> mat \<Rightarrow> error + mat" where
  "moe_routed h m hidden_states =
     bindE (linear_forward h (gate m) hidden_states)
       (\<lambda>router_logits.
          bindE (mapE (route_token (norm_topk_prob (moe_config m)) (top_k m)) router_logits)
            (\<lambda>routing. fused_moe h hidden_states (w1 m) (w2 m)
                          (map fst routing) (map snd routing)))"

definition DeepseekMoE_forward ::
  "(mat \<Rightarrow> mat) \<Rightarrow> heap \<Rightarrow> DeepseekMoE \<Rightarrow> mat \<Rightarrow> nat \<Rightarrow> (error + mat) \<times> nat" where
  "DeepseekMoE_forward ar h m hidden_states s =
     (case (if n_shared_experts (moe_config m) \<noteq> None then
              (case shared_experts m of
                 None \<Rightarrow> (Inl (AttributeError ''shared_experts''), s)
               | Some sh \<Rightarrow>
                   (case DeepseekMLP_forward ar h sh hidden_states s of
                      (Inl e, s1) \<Rightarrow> (Inl e, s1)
                    | (Inr y, s1) \<Rightarrow> (Inr (Some y), s1)))
            else (Inr None, s)) of
        (Inl e, s1) \<Rightarrow> (Inl e, s1)
      | (Inr shared_output, s1) \<Rightarrow>
          (case moe_routed h m hidden_states of
             Inl e \<Rightarrow> (Inl e, s1)
           | Inr routed \<Rightarrow>
               (let final_hidden_states =
                      (case shared_output of
                         None \<Rightarrow> routed
                       | Some shared \<Rightarrow> map2 (map2 (+)) routed shared)
                in (Inr (ar final_hidden_states), Suc s1))))"

subsection \<open>DeepseekAttention: forward\<close>

text \<open>\<^verbatim>\<open>qkv.split([a, b, c], dim=-1)\<close> on one token; it raises unless the sizes add up.\<close>

definition split3 :: "nat \<Rightarrow> nat \<Rightarrow> nat \<Rightarrow> vec \<Rightarrow> error + (vec \<times> vec \<times> vec)" where
  "split3 a b c t =
     (if length t = a + b + c then Inr (take a t, take b (drop a t), drop (a + b) t)
      else Inl RuntimeError)"



text \<open>The entries with their indices, in the order \<^verbatim>\<open>torch.topk\<close> ranks them.\<close>

definition ranked :: "vec \<Rightarrow> (real \<times> nat) list" where
  "ranked xs = sort_key (\<lambda>(v, i). - v) (zip xs [0..<length xs])"

subsection \<open>A small configuration\<close>

text \<open>
  Two routed experts and one shared expert on a hidden size of four; the first layer is
  dense and every later layer sparse.
\<close>

definition tiny_config :: config where
  "tiny_config =
     \<lparr>hidden_size = 4, intermediate_size = 8, moe_intermediate_size = 2,
      hidden_act = ''silu'', n_routed_experts = Some 2, num_experts_per_tok = 1,
      n_shared_experts = Some 1, norm_topk_prob = True, first_k_dense_replace = 1,
      moe_layer_freq = 1, num_attention_heads = 2, num_key_value_heads = 2\<rparr>"

text \<open>
  Two experts before packing: expert k owns a 2 by 1 gate_up weight in storage 2k and a
  1 by 1 down weight in storage 2k + 1 of \<open>toy_heap\<close>.
\<close>

definition toy_expert :: "nat \<Rightarrow> DeepseekMLP" where
  "toy_expert k =
     \<lparr>mlp_merge_weight = True, gate_proj = None, up_proj = None,
      gate_up_proj = Some \<lparr>weight = \<lparr>storage = 2 * k, offset = 0, shape = [2, 1]\<rparr>,
                           reduce_results = False\<rparr>,
      down_proj = \<lparr>weight = \<lparr>storage = 2 * k + 1, offset = 0, shape = [1, 1]\<rparr>,
                   reduce_results = False\<rparr>\<rparr>"

definition toy_heap :: heap where
  "toy_heap = [[1, 2], [5], [3, 4], [6]]"

text \<open>
  Weights for a dense block of hidden size 2 and intermediate size 1, built first in
  fused and then in split layout on the empty heap: storage 0 the fused weight (rows
  (1 2) and (3 4)), storage 1 its down weight, storages 2 and 3 the gate weight (1 2)
  and the up weight (3 4), storage 4 the split block's down weight.
\<close>

definition toy_mlp_heap :: heap where
  "toy_mlp_heap = [[1, 2, 3, 4], [1, 1], [1, 2], [3, 4], [1, 1]]"

definition split_backend :: quant_config where
  "split_backend = \<lparr>merge_weight = False, rope_style = None\<rparr>"

text \<open>
  A heap for the block of the small configuration in which only the router's weight
  (storage 6, two rows of four) is filled in: the first expert's row is (ln 3, 0, 0, 0),
  the second expert's row is zero.
\<close>

definition toy_gate_heap :: heap where
  "toy_gate_heap = [[], [], [], [], [], [], [ln 3, 0, 0, 0, 0, 0, 0, 0]]"




section \<open>Properties\<close>

subsection \<open>Attention heads and workers\<close>

lemma attention_sizes_ok:
  assumes "attention_sizes hidden th tkv tp = Inr (nh, nkv, hdim)"
  shows "tp \<noteq> 0 \<and> th \<noteq> 0 \<and> tkv \<noteq> 0 \<and> tp dvd th \<and>
         (if tkv \<ge> tp then tp dvd tkv else tkv dvd tp) \<and>
         nh = th div tp \<and> nkv = max 1 (tkv div tp) \<and> hdim = hidden div th \<and> hdim \<noteq> 0"
  using assms
  by (auto simp: attention_sizes_def py_mod_def py_floordiv_def split: if_splits sum.splits)

lemma attention_init_fields:
  assumes "DeepseekAttention_init hidden th tkv lm tp h = (Inr a, h')"
  shows "\<exists>nh nkv hdim. attention_sizes hidden th tkv tp = Inr (nh, nkv, hdim) \<and>
           num_heads a = nh \<and> num_kv_heads a = nkv \<and> head_dim a = hdim \<and>
           q_size a = nh * hdim \<and> kv_size a = nkv * hdim \<and> reduce_results (o_proj a)"
  using assms
  by (auto simp: DeepseekAttention_init_def Let_def RowParallelLinear_def torch_empty_def
      split: sum.splits prod.splits if_splits)

text \<open>
  Claim C7. When \<^verbatim>\<open>DeepseekAttention.__init__\<close> returns, the worker count divides the
  total head count or is divided by it, and the same holds of the key/value head count;
  the head count of each worker is at least one and times the worker count gives the
  total; the key/value head count of each worker is \<open>max 1 (total div workers)\<close>, so at
  least one. Every other configuration makes the constructor raise, before anything is
  allocated.
\<close>

theorem attention_heads_compatible:
  "(DeepseekAttention_init hidden th tkv lm tp h = (Inr a, h') \<longrightarrow>
      (tp dvd th \<or> th dvd tp) \<and> (tp dvd tkv \<or> tkv dvd tp) \<and>
      1 \<le> num_heads a \<and> 1 \<le> num_kv_heads a \<and>
      num_kv_heads a = max 1 (tkv div tp) \<and> num_heads a * tp = th) \<and>
   (\<not> ((tp dvd th \<or> th dvd tp) \<and> (tp dvd tkv \<or> tkv dvd tp)) \<longrightarrow>
      (\<exists>e. DeepseekAttention_init hidden th tkv lm tp h = (Inl e, h)))"
proof (intro conjI impI)
  assume ok: "DeepseekAttention_init hidden th tkv lm tp h = (Inr a, h')"
  from attention_init_fields [OF ok] obtain nh nkv hdim where
    s: "attention_sizes hidden th tkv tp = Inr (nh, nkv, hdim)" and
    f: "num_heads a = nh" "num_kv_heads a = nkv"
    by blast
  note k = attention_sizes_ok [OF s]
  from k show "tp dvd th \<or> th dvd tp" by simp
  from k show "tp dvd tkv \<or> tkv dvd tp" by (simp split: if_splits)
  from k f have "num_heads a = th div tp" "tp dvd th" "th \<noteq> 0" "tp \<noteq> 0" by simp_all
  then show "1 \<le> num_heads a"
    by (metis One_nat_def Suc_leI dvd_div_eq_0_iff gr0I)
  from k f show "1 \<le> num_kv_heads a" by simp
  from k f show "num_kv_heads a = max 1 (tkv div tp)" by simp
  from k f show "num_heads a * tp = th" by simp
next
  assume bad: "\<not> ((tp dvd th \<or> th dvd tp) \<and> (tp dvd tkv \<or> tkv dvd tp))"
  have "\<exists>e. attention_sizes hidden th tkv tp = Inl e"
  proof (cases "attention_sizes hidden th tkv tp")
    case (Inl e)
    then show ?thesis by blast
  next
    case (Inr r)
    obtain nh nkv hdim where "r = (nh, nkv, hdim)" by (cases r) auto
    with Inr attention_sizes_ok [of hidden th tkv tp nh nkv hdim] bad show ?thesis
      by (auto split: if_splits)
  qed
  then show "\<exists>e. DeepseekAttention_init hidden th tkv lm tp h = (Inl e, h)"
    by (auto simp: DeepseekAttention_init_def)
qed

text \<open>
  Eight heads of which two are key/value heads, on four workers: two heads and one
  (replicated) key/value head per worker. Three workers are refused.
\<close>

theorem attention_heads_compatible_witness:
  "(\<exists>a h'. DeepseekAttention_init 16 8 2 None 4 [] = (Inr a, h') \<and>
      1 \<le> num_heads a \<and> num_kv_heads a = 1 \<and> num_heads a * 4 = 8) \<and>
   (\<exists>e. DeepseekAttention_init 16 8 2 None 3 [] = (Inl e, []))"
proof -
  obtain a h' where ok: "DeepseekAttention_init 16 8 2 None 4 [] = (Inr a, h')"
    by (simp add: DeepseekAttention_init_def attention_sizes_def py_mod_def py_floordiv_def
        Let_def QKVParallelLinear_def RowParallelLinear_def torch_empty_def)
  have bad: "\<not> (((3::nat) dvd 8 \<or> (8::nat) dvd 3) \<and> ((3::nat) dvd 2 \<or> (2::nat) dvd 3))"
    by simp
  from attention_heads_compatible [of 16 8 2 None 4 "[]" a h'] ok
       attention_heads_compatible [of 16 8 2 None 3 "[]"] bad
  show ?thesis by simp
qed

subsection \<open>Tensors, packing and the experts' weights\<close>

lemma collect_weights_fused:
  "\<forall>e \<in> set es. gate_up_proj e \<noteq> None \<Longrightarrow>
   collect_weights es = Inr (map (\<lambda>e. weight (the (gate_up_proj e))) es, map (\<lambda>e. weight (down_proj e)) es)"
  by (induction es) auto

lemma collect_weights_Inr:
  "collect_weights es = Inr (ws1, ws2) \<Longrightarrow>
   (\<forall>e \<in> set es. gate_up_proj e \<noteq> None) \<and>
   ws1 = map (\<lambda>e. weight (the (gate_up_proj e))) es \<and> ws2 = map (\<lambda>e. weight (down_proj e)) es"
  by (induction es arbitrary: ws1 ws2) (auto split: option.splits sum.splits)

lemma length_unflatten_from [simp]: "length (unflatten_from flat off ts) = length ts"
  by (induction ts arbitrary: off) auto

lemma unflatten_from_nth:
  "i < length ts \<Longrightarrow> \<forall>t \<in> set ts. shape t = s \<Longrightarrow>
   unflatten_from flat off ts ! i =
     \<lparr>storage = storage flat, offset = offset flat + off + i * prod_list s, shape = s\<rparr>"
proof (induction ts arbitrary: off i)
  case Nil then show ?case by simp
next
  case (Cons t ts)
  show ?case
  proof (cases i)
    case 0 with Cons.prems show ?thesis by simp
  next
    case (Suc k)
    with Cons.prems have "k < length ts" "\<forall>t \<in> set ts. shape t = s" "numel t = prod_list s"
      by (auto simp: numel_def)
    with Cons.IH [of k "off + numel t"] Suc show ?thesis by (simp add: algebra_simps)
  qed
qed

lemma sum_list_const: "\<forall>x \<in> set xs. f x = (c::nat) \<Longrightarrow> sum_list (map f xs) = length xs * c"
  by (induction xs) auto

lemma map2_nth_set_gate_up:
  "length ds = length es \<Longrightarrow> i < length es \<Longrightarrow>
   map2 set_gate_up_data es ds ! i = set_gate_up_data (es ! i) (ds ! i)"
  by simp

lemma hd_unflatten_from: "ts \<noteq> [] \<Longrightarrow> shape (hd (unflatten_from flat off ts)) = shape (hd ts)"
  by (cases ts) auto

lemma pack_params_uniform:
  assumes ne: "es \<noteq> []"
    and u1: "\<forall>e \<in> set es. \<exists>gu. gate_up_proj e = Some gu \<and> shape (weight gu) = s1"
    and u2: "\<forall>e \<in> set es. shape (weight (down_proj e)) = s2"
  shows "pack_params es h =
    (Inr (map2 set_down_data
            (map2 set_gate_up_data es
               (unflatten_from \<lparr>storage = length h, offset = 0, shape = [length es * prod_list s1]\<rparr> 0 (gate_up_weights es)))
            (unflatten_from \<lparr>storage = Suc (length h), offset = 0, shape = [length es * prod_list s2]\<rparr> 0 (down_weights es)),
          \<lparr>storage = length h, offset = 0, shape = length es # s1\<rparr>,
          \<lparr>storage = Suc (length h), offset = 0, shape = length es # s2\<rparr>),
     h @ [concat (map (tensor_data h) (gate_up_weights es)),
          concat (map (tensor_data (h @ [concat (map (tensor_data h) (gate_up_weights es))])) (down_weights es))])"
proof -
  from u1 have c: "collect_weights es = Inr (gate_up_weights es, down_weights es)"
    by (subst collect_weights_fused) (auto simp: gate_up_weights_def down_weights_def)
  from ne have ne1: "gate_up_weights es \<noteq> []" and ne2: "down_weights es \<noteq> []"
    by (simp_all add: gate_up_weights_def down_weights_def)
  from u1 have s1: "\<forall>t \<in> set (gate_up_weights es). shape t = s1"
    by (auto simp: gate_up_weights_def)
  from u2 have s2: "\<forall>t \<in> set (down_weights es). shape t = s2"
    by (auto simp: down_weights_def)
  from s1 have n1: "sum_list (map numel (gate_up_weights es)) = length es * prod_list s1"
    by (subst sum_list_const [where c = "prod_list s1"]) (auto simp: numel_def gate_up_weights_def)
  from s2 have n2: "sum_list (map numel (down_weights es)) = length es * prod_list s2"
    by (subst sum_list_const [where c = "prod_list s2"]) (auto simp: numel_def down_weights_def)
  from ne1 s1 have h1: "shape (hd (gate_up_weights es)) = s1" by (cases "gate_up_weights es") auto
  from ne2 s2 have h2: "shape (hd (down_weights es)) = s2" by (cases "down_weights es") auto
  have l1: "length (gate_up_weights es) = length es" and l2: "length (down_weights es) = length es"
    by (simp_all add: gate_up_weights_def down_weights_def)
  show ?thesis
    unfolding pack_params_def c
    by (simp add: flatten_dense_tensors_def ne1 ne2 n1 n2 unflatten_dense_tensors_def
        hd_unflatten_from h1 h2 view_def numel_def l1 l2 Let_def)
qed

lemma concat_chunk:
  "\<forall>x \<in> set xs. length x = m \<Longrightarrow> i < length xs \<Longrightarrow> take m (drop (i * m) (concat xs)) = xs ! i"
proof (induction xs arbitrary: i)
  case Nil then show ?case by simp
next
  case (Cons x xs)
  then show ?case by (cases i) (auto simp: drop_append)
qed

lemma length_tensor_data: "valid_tensor h t \<Longrightarrow> length (tensor_data h t) = numel t"
  by (auto simp: valid_tensor_def tensor_data_def)

lemma tensor_data_append: "storage t < length h \<Longrightarrow> tensor_data (h @ hs) t = tensor_data h t"
  by (simp add: tensor_data_def nth_append)

lemma bank_slice_get:
  "tensor_get hh (bank_slice b i) j = tensor_get hh b (i * prod_list (tl (shape b)) + j)"
  by (simp add: tensor_get_def bank_slice_def add.assoc)

lemma bank_slice_set:
  "tensor_set (bank_slice b i) j v hh = tensor_set b (i * prod_list (tl (shape b)) + j) v hh"
  by (simp add: tensor_set_def bank_slice_def add.assoc)

lemma tensor_get_set:
  "storage t < length hh \<Longrightarrow> offset t + j < length (hh ! storage t) \<Longrightarrow>
   tensor_get (tensor_set t j v hh) t j = v"
  by (simp add: tensor_get_def tensor_set_def)

lemma copy_from_length [simp]: "length (copy_from t j vs h) = length h"
  by (induction vs arbitrary: j h) (auto simp: tensor_set_def)

lemma copy_from_storage_length [simp]:
  "length (copy_from t j vs h ! storage t) = length (h ! storage t)"
proof (induction vs arbitrary: j h)
  case Nil then show ?case by simp
next
  case (Cons v vs)
  show ?case
    by (cases "storage t < length h") (simp_all add: Cons.IH tensor_set_def list_update_beyond)
qed

lemma copy_from_nth:
  "storage t < length h \<Longrightarrow> offset t + j + length vs \<le> length (h ! storage t) \<Longrightarrow>
   copy_from t j vs h ! storage t ! k =
     (if offset t + j \<le> k \<and> k < offset t + j + length vs then vs ! (k - (offset t + j))
      else h ! storage t ! k)"
proof (induction vs arbitrary: j h)
  case Nil then show ?case by simp
next
  case (Cons v vs)
  let ?h = "tensor_set t j v h"
  have a: "storage t < length ?h" using Cons.prems by (simp add: tensor_set_def)
  have b: "offset t + Suc j + length vs \<le> length (?h ! storage t)"
    using Cons.prems by (simp add: tensor_set_def)
  have c: "?h ! storage t ! k = (if k = offset t + j then v else h ! storage t ! k)"
    using Cons.prems by (auto simp: tensor_set_def)
  show ?case
    using Cons.IH [OF a b] c by (auto simp: nth_Cons' Suc_diff_le)
qed

lemma tensor_data_copy:
  assumes "valid_tensor hh t" "length src = numel t"
  shows "tensor_data (tensor_copy t src hh) t = src"
proof (rule nth_equalityI)
  from assms show "length (tensor_data (tensor_copy t src hh) t) = length src"
    by (auto simp: tensor_data_def tensor_copy_def valid_tensor_def)
next
  fix k assume "k < length (tensor_data (tensor_copy t src hh) t)"
  with assms have k: "k < numel t"
    by (simp add: tensor_data_def tensor_copy_def valid_tensor_def)
  from assms have "storage t < length hh" "offset t + 0 + length src \<le> length (hh ! storage t)"
    by (simp_all add: valid_tensor_def)
  from copy_from_nth [OF this, of "offset t + k"] k assms
  show "tensor_data (tensor_copy t src hh) t ! k = src ! k"
    by (simp add: tensor_data_def tensor_copy_def valid_tensor_def)
qed

lemma pack_params_expert:
  assumes ne: "es \<noteq> []"
    and u1: "\<forall>e \<in> set es. \<exists>gu. gate_up_proj e = Some gu \<and> shape (weight gu) = s1"
    and u2: "\<forall>e \<in> set es. shape (weight (down_proj e)) = s2"
    and p: "pack_params es h = (r, h')"
  shows "\<exists>es' b1 b2. r = Inr (es', b1, b2) \<and> length es' = length es \<and>
           b1 = \<lparr>storage = length h, offset = 0, shape = length es # s1\<rparr> \<and>
           b2 = \<lparr>storage = Suc (length h), offset = 0, shape = length es # s2\<rparr> \<and>
           (\<forall>i < length es.
              es' ! i = (es ! i)\<lparr>gate_up_proj := Some ((the (gate_up_proj (es ! i)))\<lparr>weight := bank_slice b1 i\<rparr>),
                                down_proj := (down_proj (es ! i))\<lparr>weight := bank_slice b2 i\<rparr>\<rparr>)"
proof -
  from u1 have s1: "\<forall>t \<in> set (gate_up_weights es). shape t = s1"
    by (auto simp: gate_up_weights_def)
  from u2 have s2: "\<forall>t \<in> set (down_weights es). shape t = s2"
    by (auto simp: down_weights_def)
  have l1: "length (gate_up_weights es) = length es" and l2: "length (down_weights es) = length es"
    by (simp_all add: gate_up_weights_def down_weights_def)
  have "(es ! i)\<lparr>gate_up_proj := Some ((the (gate_up_proj (es ! i)))\<lparr>weight := w\<rparr>)\<rparr> = set_gate_up_data (es ! i) w"
    if "i < length es" for i w
  proof -
    from that u1 obtain gu where "gate_up_proj (es ! i) = Some gu" by (meson nth_mem)
    then show ?thesis by (simp add: set_gate_up_data_def)
  qed
  note g = this
  show ?thesis
    using p unfolding pack_params_uniform [OF ne u1 u2]
    by (auto simp: l1 l2 unflatten_from_nth [OF _ s1] unflatten_from_nth [OF _ s2] bank_slice_def g
        set_down_data_def set_gate_up_data_def)
qed

lemma pack_params_heap:
  assumes ne: "es \<noteq> []"
    and u1: "\<forall>e \<in> set es. \<exists>gu. gate_up_proj e = Some gu \<and> shape (weight gu) = s1"
    and u2: "\<forall>e \<in> set es. shape (weight (down_proj e)) = s2"
    and v1: "\<forall>e \<in> set es. valid_tensor h (weight (the (gate_up_proj e))) \<and> valid_tensor h (weight (down_proj e))"
    and p: "pack_params es h = (Inr (es', b1, b2), h')"
    and i: "i < length es"
  shows "tensor_data h' (bank_slice b1 i) = tensor_data h (weight (the (gate_up_proj (es ! i)))) \<and>
         tensor_data h' (bank_slice b2 i) = tensor_data h (weight (down_proj (es ! i))) \<and>
         valid_tensor h' b1 \<and> valid_tensor h' b2 \<and> take (length h) h' = h"
proof -
  let ?c1 = "map (tensor_data h) (gate_up_weights es)"
  let ?c2 = "map (tensor_data (h @ [concat ?c1])) (down_weights es)"
  from p have b1: "b1 = \<lparr>storage = length h, offset = 0, shape = length es # s1\<rparr>"
    and b2: "b2 = \<lparr>storage = Suc (length h), offset = 0, shape = length es # s2\<rparr>"
    and h': "h' = h @ [concat ?c1, concat ?c2]"
    unfolding pack_params_uniform [OF ne u1 u2] by simp_all
  have m1: "\<forall>x \<in> set ?c1. length x = prod_list s1"
    using u1 v1 by (fastforce simp: gate_up_weights_def length_tensor_data numel_def)
  have c2: "?c2 = map (tensor_data h) (down_weights es)"
    using v1 by (auto simp: down_weights_def tensor_data_append valid_tensor_def)
  have m2: "\<forall>x \<in> set ?c2. length x = prod_list s2"
    unfolding c2 using u2 v1 by (fastforce simp: down_weights_def length_tensor_data numel_def)
  have l1: "length (concat ?c1) = length es * prod_list s1"
    using m1 by (simp add: length_concat sum_list_const [where c = "prod_list s1"] gate_up_weights_def comp_def)
  have l2: "length (concat ?c2) = length es * prod_list s2"
    using m2 by (simp add: length_concat sum_list_const [where c = "prod_list s2"] down_weights_def comp_def)
  have d1: "tensor_data h' (bank_slice b1 i) = ?c1 ! i"
    using concat_chunk [OF m1, of i] i
    by (simp add: tensor_data_def bank_slice_def b1 h' numel_def nth_append gate_up_weights_def)
  have d2: "tensor_data h' (bank_slice b2 i) = ?c2 ! i"
    using concat_chunk [OF m2, of i] i
    by (simp add: tensor_data_def bank_slice_def b2 h' numel_def nth_append down_weights_def)
  from d1 d2 c2 i l1 l2 show ?thesis
    by (simp add: gate_up_weights_def down_weights_def valid_tensor_def b1 b2 h' numel_def nth_append)
qed

lemma DeepseekMLP_init_fields:
  assumes "DeepseekMLP_init hidden isz act lm red h = (Inr m, h')"
  shows "shape (weight (down_proj m)) = [hidden, isz] \<and> reduce_results (down_proj m) = red \<and>
         (\<forall>gu. gate_up_proj m = Some gu \<longrightarrow> shape (weight gu) = [isz + isz, hidden]) \<and>
         (mlp_merge_weight m \<longleftrightarrow> gate_up_proj m \<noteq> None) \<and> act = ''silu''"
  using assms
  by (auto simp: DeepseekMLP_init_def Let_def RowParallelLinear_def MergedColumnParallelLinear_def
      ColumnParallelLinear_def torch_empty_def split: prod.splits if_splits)

lemma build_experts_fields:
  "build_experts n cfg lm h = (Inr es, h') \<Longrightarrow>
   length es = n \<and>
   (\<forall>e \<in> set es. shape (weight (down_proj e)) = [hidden_size cfg, moe_intermediate_size cfg] \<and>
      \<not> reduce_results (down_proj e) \<and>
      (mlp_merge_weight e \<longleftrightarrow> gate_up_proj e \<noteq> None) \<and>
      (\<forall>gu. gate_up_proj e = Some gu \<longrightarrow>
         shape (weight gu) = [moe_intermediate_size cfg + moe_intermediate_size cfg, hidden_size cfg]))"
proof (induction n arbitrary: h es h')
  case 0 then show ?case by simp
next
  case (Suc n)
  from Suc.prems obtain m h1 ms where
    m: "DeepseekMLP_init (hidden_size cfg) (moe_intermediate_size cfg) (hidden_act cfg) lm False h = (Inr m, h1)"
    and ms: "build_experts n cfg lm h1 = (Inr ms, h')" and es: "es = m # ms"
    by (auto split: prod.splits sum.splits)
  from DeepseekMLP_init_fields [OF m] Suc.IH [OF ms] es
  show ?case by simp
qed

lemma DeepseekMoE_init_unfold:
  assumes "DeepseekMoE_init cfg lm tp h = (Inr m, h')"
  shows "\<exists>n es h1 h2. n_routed_experts cfg = Some n \<and> tp \<le> n \<and>
           build_experts n cfg lm h = (Inr es, h1) \<and>
           pack_params es h1 = (Inr (experts m, w1 m, w2 m), h2) \<and>
           moe_config m = cfg \<and> top_k m = num_experts_per_tok cfg \<and>
           shape (weight (gate m)) = [n, hidden_size cfg] \<and>
           (case n_shared_experts cfg of
              None \<Rightarrow> shared_experts m = None
            | Some ns \<Rightarrow>
                (\<exists>s h4. DeepseekMLP_init (hidden_size cfg) (moe_intermediate_size cfg * ns)
                           (hidden_act cfg) lm False (snd (ReplicatedLinear (hidden_size cfg) n h2)) = (Inr s, h4) \<and>
                         shared_experts m = Some s))"
  using assms
  by (auto simp: DeepseekMoE_init_def Let_def ReplicatedLinear_def torch_empty_def
      split: option.splits if_splits prod.splits sum.splits)

lemma DeepseekMoE_init_experts:
  assumes ok: "DeepseekMoE_init cfg lm tp h = (Inr m, h')"
  shows "\<exists>n. n_routed_experts cfg = Some n \<and> 0 < n \<and> length (experts m) = n \<and>
           shape (w1 m) = [n, moe_intermediate_size cfg + moe_intermediate_size cfg, hidden_size cfg] \<and>
           shape (w2 m) = [n, hidden_size cfg, moe_intermediate_size cfg] \<and>
           (\<forall>i < n. \<exists>gu. gate_up_proj (experts m ! i) = Some gu \<and>
               weight gu = bank_slice (w1 m) i \<and>
               weight (down_proj (experts m ! i)) = bank_slice (w2 m) i \<and>
               \<not> reduce_results (down_proj (experts m ! i)) \<and>
               mlp_merge_weight (experts m ! i))"
proof -
  from DeepseekMoE_init_unfold [OF ok] obtain n es h1 h2 where
    n: "n_routed_experts cfg = Some n" and
    b: "build_experts n cfg lm h = (Inr es, h1)" and
    p: "pack_params es h1 = (Inr (experts m, w1 m, w2 m), h2)"
    by blast
  note f = build_experts_fields [OF b]
  from p obtain ws1 ws2 where c: "collect_weights es = Inr (ws1, ws2)"
    by (auto simp: pack_params_def split: sum.splits)
  from collect_weights_Inr [OF c] have some: "\<forall>e \<in> set es. gate_up_proj e \<noteq> None" by simp
  have ne: "es \<noteq> []"
    using p by (auto simp: pack_params_def flatten_dense_tensors_def)
  let ?s1 = "[moe_intermediate_size cfg + moe_intermediate_size cfg, hidden_size cfg]"
  let ?s2 = "[hidden_size cfg, moe_intermediate_size cfg]"
  from f some have u1: "\<forall>e \<in> set es. \<exists>gu. gate_up_proj e = Some gu \<and> shape (weight gu) = ?s1"
    by auto
  from f have u2: "\<forall>e \<in> set es. shape (weight (down_proj e)) = ?s2" by simp
  from pack_params_expert [OF ne u1 u2 p] have
    l: "length (experts m) = length es" and
    b1: "w1 m = \<lparr>storage = length h1, offset = 0, shape = length es # ?s1\<rparr>" and
    b2: "w2 m = \<lparr>storage = Suc (length h1), offset = 0, shape = length es # ?s2\<rparr>" and
    e: "\<forall>i < length es. experts m ! i =
          (es ! i)\<lparr>gate_up_proj := Some ((the (gate_up_proj (es ! i)))\<lparr>weight := bank_slice (w1 m) i\<rparr>),
                   down_proj := (down_proj (es ! i))\<lparr>weight := bank_slice (w2 m) i\<rparr>\<rparr>"
    by auto
  have "\<exists>gu. gate_up_proj (experts m ! i) = Some gu \<and>
               weight gu = bank_slice (w1 m) i \<and>
               weight (down_proj (experts m ! i)) = bank_slice (w2 m) i \<and>
               \<not> reduce_results (down_proj (experts m ! i)) \<and>
               mlp_merge_weight (experts m ! i)" if i: "i < n" for i
  proof -
    from i f have "es ! i \<in> set es" by simp
    with f some have "\<not> reduce_results (down_proj (es ! i))" "mlp_merge_weight (es ! i)" by auto
    with e i f show ?thesis by simp
  qed
  with n ne f l b1 b2 show ?thesis by auto
qed

lemma slice_index_bound: "i < n \<Longrightarrow> j < m \<Longrightarrow> i * m + j < n * (m::nat)"
proof -
  assume a: "i < n" "j < m"
  then have "i * m + j < Suc i * m" by simp
  also from a have "\<dots> \<le> n * m" by (intro mult_le_mono1) simp
  finally show ?thesis .
qed

lemma slice_end_bound: "i < n \<Longrightarrow> i * m + m \<le> n * (m::nat)"
proof -
  assume "i < n"
  then have "Suc i * m \<le> n * m" by (intro mult_le_mono1) simp
  then show ?thesis by (simp add: add.commute)
qed

lemma bank_slice_valid:
  assumes "shape b = n # s" "i < n" "valid_tensor hh b"
  shows "valid_tensor hh (bank_slice b i)"
  using assms slice_end_bound [of i n "prod_list s"]
  by (simp add: valid_tensor_def bank_slice_def numel_def)

lemma bank_slice_data:
  assumes "shape b = n # s" "i < n"
  shows "tensor_data hh (bank_slice b i) =
         take (prod_list s) (drop (i * prod_list s) (tensor_data hh b))"
  using assms slice_end_bound [of i n "prod_list s"]
  by (simp add: tensor_data_def bank_slice_def numel_def take_drop min_def add.commute)

lemma bank_write_read:
  assumes "shape b = n # s" "i < n" "j < prod_list s" "valid_tensor hh b"
  shows "tensor_get (tensor_set (bank_slice b i) j v hh) b (i * prod_list s + j) = v"
proof -
  from assms slice_index_bound [of i n j "prod_list s"]
  have "storage b < length hh" "offset b + (i * prod_list s + j) < length (hh ! storage b)"
    by (simp_all add: valid_tensor_def numel_def)
  from tensor_get_set [OF this] assms(1) show ?thesis
    by (simp add: bank_slice_set)
qed

lemma bank_load_read:
  assumes "shape b = n # s" "i < n" "valid_tensor hh b" "length src = prod_list s"
  shows "take (prod_list s) (drop (i * prod_list s)
           (tensor_data (default_weight_loader (bank_slice b i) src hh) b)) = src"
proof -
  from assms have "numel (bank_slice b i) = length src"
    by (simp add: numel_def bank_slice_def)
  with tensor_data_copy [OF bank_slice_valid [OF assms(1-3)], of src]
  have "tensor_data (default_weight_loader (bank_slice b i) src hh) (bank_slice b i) = src"
    by (simp add: default_weight_loader_def)
  with bank_slice_data [OF assms(1,2)] show ?thesis by simp
qed

text \<open>
  Claim C2. Let \<^verbatim>\<open>pack_params\<close> return on experts that each own a fused gate_up weight
  and a down weight, all of one shape per kind and all inside the heap. Then the
  gate_up weight of the i-th expert is rebound to the i-th slice of the bank \<open>w1\<close> and
  its down weight to the i-th slice of \<open>w2\<close> (the same storage and offset, not a copy),
  and what the expert's weights held before packing is what the bank slices hold after
  it. The experts of every \<^verbatim>\<open>DeepseekMoE\<close> that \<^verbatim>\<open>__init__\<close> returns are bound this way.
  The binding is part of the module and no write to the heap changes it; for every
  heap, reading position j of a slice is reading position \<open>i * size + j\<close> of the bank,
  writing one is writing the other, a value written through the slice is read back
  through the bank, and a weight loaded in place through the slice is what the bank
  then holds at that slice.
\<close>

theorem expert_weights_alias_banks:
  "(pack_params es h = (Inr (es', b1, b2), h') \<and>
    (\<forall>e \<in> set es. \<exists>gu. gate_up_proj e = Some gu \<and> shape (weight gu) = s1 \<and>
        valid_tensor h (weight gu)) \<and>
    (\<forall>e \<in> set es. shape (weight (down_proj e)) = s2 \<and> valid_tensor h (weight (down_proj e))) \<and>
    i < length es \<longrightarrow>
      (\<exists>gu gu'. gate_up_proj (es ! i) = Some gu \<and> gate_up_proj (es' ! i) = Some gu' \<and>
         weight gu' = bank_slice b1 i \<and> weight (down_proj (es' ! i)) = bank_slice b2 i \<and>
         shape b1 = length es # s1 \<and> shape b2 = length es # s2 \<and>
         tensor_data h' (bank_slice b1 i) = tensor_data h (weight gu) \<and>
         tensor_data h' (bank_slice b2 i) = tensor_data h (weight (down_proj (es ! i))))) \<and>
   (DeepseekMoE_init cfg lm tp h0 = (Inr m, h1) \<and> k < length (experts m) \<longrightarrow>
      (\<exists>gu. gate_up_proj (experts m ! k) = Some gu \<and> weight gu = bank_slice (w1 m) k) \<and>
      weight (down_proj (experts m ! k)) = bank_slice (w2 m) k) \<and>
   (\<forall>hh j v. tensor_get hh (bank_slice b i) j = tensor_get hh b (i * prod_list (tl (shape b)) + j) \<and>
      tensor_set (bank_slice b i) j v hh = tensor_set b (i * prod_list (tl (shape b)) + j) v hh) \<and>
   (shape b = n # s \<and> i < n \<and> j < prod_list s \<and> valid_tensor hh b \<longrightarrow>
      tensor_get (tensor_set (bank_slice b i) j v hh) b (i * prod_list s + j) = v) \<and>
   (shape b = n # s \<and> i < n \<and> valid_tensor hh b \<and> length src = prod_list s \<longrightarrow>
      take (prod_list s) (drop (i * prod_list s)
        (tensor_data (default_weight_loader (bank_slice b i) src hh) b)) = src)"
proof -
  have A: "\<exists>gu gu'. gate_up_proj (es ! i) = Some gu \<and> gate_up_proj (es' ! i) = Some gu' \<and>
         weight gu' = bank_slice b1 i \<and> weight (down_proj (es' ! i)) = bank_slice b2 i \<and>
         shape b1 = length es # s1 \<and> shape b2 = length es # s2 \<and>
         tensor_data h' (bank_slice b1 i) = tensor_data h (weight gu) \<and>
         tensor_data h' (bank_slice b2 i) = tensor_data h (weight (down_proj (es ! i)))"
    if p: "pack_params es h = (Inr (es', b1, b2), h')"
      and g: "\<forall>e \<in> set es. \<exists>gu. gate_up_proj e = Some gu \<and> shape (weight gu) = s1 \<and>
                valid_tensor h (weight gu)"
      and d: "\<forall>e \<in> set es. shape (weight (down_proj e)) = s2 \<and> valid_tensor h (weight (down_proj e))"
      and i: "i < length es"
  proof -
    from i have ne: "es \<noteq> []" by auto
    from g have u1: "\<forall>e \<in> set es. \<exists>gu. gate_up_proj e = Some gu \<and> shape (weight gu) = s1" by blast
    from d have u2: "\<forall>e \<in> set es. shape (weight (down_proj e)) = s2" by blast
    from g d have v: "\<forall>e \<in> set es. valid_tensor h (weight (the (gate_up_proj e))) \<and>
        valid_tensor h (weight (down_proj e))" by fastforce
    from i u1 obtain gu where gu: "gate_up_proj (es ! i) = Some gu" by (meson nth_mem)
    from pack_params_expert [OF ne u1 u2 p] i gu
    have e: "gate_up_proj (es' ! i) = Some (gu\<lparr>weight := bank_slice b1 i\<rparr>)"
        "weight (down_proj (es' ! i)) = bank_slice b2 i"
        "shape b1 = length es # s1" "shape b2 = length es # s2"
      by auto
    from pack_params_heap [OF ne u1 u2 v p i] gu e show ?thesis by simp
  qed
  have B: "(\<exists>gu. gate_up_proj (experts m ! k) = Some gu \<and> weight gu = bank_slice (w1 m) k) \<and>
      weight (down_proj (experts m ! k)) = bank_slice (w2 m) k"
    if "DeepseekMoE_init cfg lm tp h0 = (Inr m, h1)" "k < length (experts m)"
    using DeepseekMoE_init_experts [OF that(1)] that(2) by auto
  have C: "\<forall>hh j v. tensor_get hh (bank_slice b i) j = tensor_get hh b (i * prod_list (tl (shape b)) + j) \<and>
      tensor_set (bank_slice b i) j v hh = tensor_set b (i * prod_list (tl (shape b)) + j) v hh"
    by (simp add: bank_slice_get bank_slice_set)
  have D: "shape b = n # s \<and> i < n \<and> j < prod_list s \<and> valid_tensor hh b \<longrightarrow>
      tensor_get (tensor_set (bank_slice b i) j v hh) b (i * prod_list s + j) = v"
    using bank_write_read by blast
  have E: "shape b = n # s \<and> i < n \<and> valid_tensor hh b \<and> length src = prod_list s \<longrightarrow>
      take (prod_list s) (drop (i * prod_list s)
        (tensor_data (default_weight_loader (bank_slice b i) src hh) b)) = src"
    using bank_load_read by blast
  have A': "pack_params es h = (Inr (es', b1, b2), h') \<and>
    (\<forall>e \<in> set es. \<exists>gu. gate_up_proj e = Some gu \<and> shape (weight gu) = s1 \<and>
        valid_tensor h (weight gu)) \<and>
    (\<forall>e \<in> set es. shape (weight (down_proj e)) = s2 \<and> valid_tensor h (weight (down_proj e))) \<and>
    i < length es \<longrightarrow>
      (\<exists>gu gu'. gate_up_proj (es ! i) = Some gu \<and> gate_up_proj (es' ! i) = Some gu' \<and>
         weight gu' = bank_slice b1 i \<and> weight (down_proj (es' ! i)) = bank_slice b2 i \<and>
         shape b1 = length es # s1 \<and> shape b2 = length es # s2 \<and>
         tensor_data h' (bank_slice b1 i) = tensor_data h (weight gu) \<and>
         tensor_data h' (bank_slice b2 i) = tensor_data h (weight (down_proj (es ! i))))"
    using A by (intro impI) (elim conjE)
  have B': "DeepseekMoE_init cfg lm tp h0 = (Inr m, h1) \<and> k < length (experts m) \<longrightarrow>
      (\<exists>gu. gate_up_proj (experts m ! k) = Some gu \<and> weight gu = bank_slice (w1 m) k) \<and>
      weight (down_proj (experts m ! k)) = bank_slice (w2 m) k"
    using B by (intro impI) (elim conjE)
  show ?thesis
    by (rule conjI [OF A' conjI [OF B' conjI [OF C conjI [OF D E]]]])
qed

subsection \<open>Construction of the feed-forward blocks\<close>

lemma use_moe_eq:
  "moe_layer_freq cfg \<noteq> 0 \<Longrightarrow>
   use_moe cfg i = Inr (n_routed_experts cfg \<noteq> None \<and> first_k_dense_replace cfg \<le> i \<and> moe_layer_freq cfg dvd i)"
  by (auto simp: use_moe_def mod_eq_0_iff_dvd)

lemma use_moe_Inr:
  "use_moe cfg i = Inr b \<Longrightarrow>
   b = (n_routed_experts cfg \<noteq> None \<and> first_k_dense_replace cfg \<le> i \<and> moe_layer_freq cfg dvd i)"
  by (auto simp: use_moe_def mod_eq_0_iff_dvd split: if_splits)

lemma DeepseekMLP_init_down_shape:
  "DeepseekMLP_init hidden isz act lm red h = (Inr d, h') \<Longrightarrow>
   shape (weight (down_proj d)) = [hidden, isz] \<and> reduce_results (down_proj d) = red"
  by (auto simp: DeepseekMLP_init_def Let_def RowParallelLinear_def torch_empty_def
      split: prod.splits if_splits)

lemma decoder_layer_mlp:
  assumes "DeepseekDecoderLayer_init cfg i lm tp h = (Inr l, h')"
  shows "\<exists>b. use_moe cfg i = Inr b \<and>
           (if b then \<exists>m. mlp l = MoE m
            else \<exists>d h1 h2. DeepseekMLP_init (hidden_size cfg) (intermediate_size cfg)
                              (hidden_act cfg) lm True h1 = (Inr d, h2) \<and> mlp l = Dense d)"
  using assms
  by (fastforce simp: DeepseekDecoderLayer_init_def split: prod.splits sum.splits bool.splits)

text \<open>
  Claim C6. In every decoder layer that \<^verbatim>\<open>__init__\<close> returns, the feed-forward block is
  the sparse block exactly when routed experts are configured, the layer index is at
  least \<^verbatim>\<open>first_k_dense_replace\<close> and \<^verbatim>\<open>moe_layer_freq\<close> divides it; in every other case
  it is the dense block, built with \<^verbatim>\<open>intermediate_size\<close>. The layer record is never
  updated after construction. (A zero \<^verbatim>\<open>moe_layer_freq\<close> makes the remainder of line 329
  raise, so no layer is returned then once the first two conditions hold.)
\<close>

theorem decoder_layer_feed_forward_choice:
  assumes "DeepseekDecoderLayer_init cfg i lm tp h = (Inr l, h')"
  shows "((\<exists>m. mlp l = MoE m) \<longleftrightarrow>
            (n_routed_experts cfg \<noteq> None \<and> first_k_dense_replace cfg \<le> i \<and> moe_layer_freq cfg dvd i)) \<and>
         ((\<exists>d. mlp l = Dense d \<and> shape (weight (down_proj d)) = [hidden_size cfg, intermediate_size cfg]) \<longleftrightarrow>
            \<not> (n_routed_experts cfg \<noteq> None \<and> first_k_dense_replace cfg \<le> i \<and> moe_layer_freq cfg dvd i))"
proof -
  from decoder_layer_mlp [OF assms] obtain b where
    u: "use_moe cfg i = Inr b" and
    r: "if b then \<exists>m. mlp l = MoE m
        else \<exists>d h1 h2. DeepseekMLP_init (hidden_size cfg) (intermediate_size cfg)
                          (hidden_act cfg) lm True h1 = (Inr d, h2) \<and> mlp l = Dense d"
    by blast
  note b = use_moe_Inr [OF u]
  show ?thesis
  proof (cases b)
    case True
    with r b show ?thesis by auto
  next
    case False
    with r obtain d h1 h2 where
      d: "DeepseekMLP_init (hidden_size cfg) (intermediate_size cfg) (hidden_act cfg) lm True h1 = (Inr d, h2)"
      and l: "mlp l = Dense d" by auto
    from DeepseekMLP_init_down_shape [OF d] l False b show ?thesis by simp
  qed
qed

lemma DeepseekMLP_init_unsupported_act:
  "act \<noteq> ''silu'' \<Longrightarrow> fst (DeepseekMLP_init hidden isz act lm red h) = Inl ValueError"
  by (simp add: DeepseekMLP_init_def Let_def split: prod.splits)

lemma DeepseekMLP_init_allocates:
  "length h < length (snd (DeepseekMLP_init hidden isz act lm red h))"
  by (simp add: DeepseekMLP_init_def Let_def RowParallelLinear_def ColumnParallelLinear_def
      MergedColumnParallelLinear_def torch_empty_def split: prod.splits)

text \<open>
  Claim C9. With more workers than routed experts \<^verbatim>\<open>DeepseekMoE.__init__\<close> raises
  \<^verbatim>\<open>ValueError\<close> and leaves the heap as it found it: no expert has been built, since
  building one allocates. \<^verbatim>\<open>DeepseekMLP.__init__\<close> raises \<^verbatim>\<open>ValueError\<close> for every
  activation name other than \<^verbatim>\<open>silu\<close>.
\<close>

theorem moe_and_mlp_construction_errors:
  "(n_routed_experts cfg = Some n \<and> tp > n \<longrightarrow> DeepseekMoE_init cfg lm tp h = (Inl ValueError, h)) \<and>
   (act \<noteq> ''silu'' \<longrightarrow> fst (DeepseekMLP_init hidden isz act lm red h) = Inl ValueError) \<and>
   length h < length (snd (DeepseekMLP_init hidden isz act lm red h))"
  by (simp add: DeepseekMLP_init_unsupported_act DeepseekMLP_init_allocates DeepseekMoE_init_def)

lemma DeepseekMLP_init_split:
  "\<not> merge_weight qc \<Longrightarrow> DeepseekMLP_init hidden isz act (Some qc) red h = (Inr m, h') \<Longrightarrow>
   \<not> mlp_merge_weight m \<and> gate_up_proj m = None \<and> gate_proj m \<noteq> None \<and> up_proj m \<noteq> None"
  by (auto simp: DeepseekMLP_init_def Let_def split: prod.splits if_splits)

lemma DeepseekMLP_init_silu:
  "\<exists>m h'. DeepseekMLP_init hidden isz ''silu'' lm red h = (Inr m, h')"
  by (simp add: DeepseekMLP_init_def Let_def split: prod.splits)

lemma build_experts_split:
  "\<not> merge_weight qc \<Longrightarrow> build_experts n cfg (Some qc) h = (Inr es, h') \<Longrightarrow>
   length es = n \<and> (\<forall>e \<in> set es. gate_up_proj e = None)"
proof (induction n arbitrary: h es h')
  case 0 then show ?case by simp
next
  case (Suc n)
  from Suc.prems(2) obtain m h1 ms where
    m: "DeepseekMLP_init (hidden_size cfg) (moe_intermediate_size cfg) (hidden_act cfg) (Some qc) False h = (Inr m, h1)"
    and ms: "build_experts n cfg (Some qc) h1 = (Inr ms, h')" and es: "es = m # ms"
    by (auto split: prod.splits sum.splits)
  from DeepseekMLP_init_split [OF Suc.prems(1) m] Suc.IH [OF Suc.prems(1) ms] es
  show ?case by simp
qed

lemma pack_params_split:
  assumes "\<forall>e \<in> set es. gate_up_proj e = None"
  shows "\<exists>err. fst (pack_params es h) = Inl err"
proof (cases es)
  case Nil
  then show ?thesis by (simp add: pack_params_def flatten_dense_tensors_def)
next
  case (Cons e es')
  with assms show ?thesis by (simp add: pack_params_def)
qed

lemma pack_params_split_attr:
  "es \<noteq> [] \<Longrightarrow> \<forall>e \<in> set es. gate_up_proj e = None \<Longrightarrow>
   pack_params es h = (Inl (AttributeError ''gate_up_proj''), h)"
  by (cases es) (simp_all add: pack_params_def)

lemma MoE_init_split_fails:
  assumes "\<not> merge_weight qc"
  shows "\<exists>err. fst (DeepseekMoE_init cfg (Some qc) tp h) = Inl err"
proof (cases "n_routed_experts cfg")
  case None
  then show ?thesis by (simp add: DeepseekMoE_init_def)
next
  case (Some n)
  show ?thesis
  proof (cases "tp > n")
    case True
    with Some show ?thesis by (simp add: DeepseekMoE_init_def)
  next
    case False
    obtain r h1 where b: "build_experts n cfg (Some qc) h = (r, h1)" by (cases "build_experts n cfg (Some qc) h")
    show ?thesis
    proof (cases r)
      case (Inl e)
      with Some False b show ?thesis by (simp add: DeepseekMoE_init_def)
    next
      case (Inr es)
      with b build_experts_split [OF assms, of n cfg h es h1]
      have "\<forall>e \<in> set es. gate_up_proj e = None" by simp
      from pack_params_split [OF this, of h1] obtain err where "fst (pack_params es h1) = Inl err" ..
      with Some False b Inr show ?thesis
        by (cases "pack_params es h1") (simp add: DeepseekMoE_init_def)
    qed
  qed
qed

lemma build_experts_silu:
  "hidden_act cfg = ''silu'' \<Longrightarrow> \<exists>es h'. build_experts n cfg lm h = (Inr es, h')"
proof (induction n arbitrary: h)
  case 0 then show ?case by simp
next
  case (Suc n)
  from DeepseekMLP_init_silu obtain m h1 where
    "DeepseekMLP_init (hidden_size cfg) (moe_intermediate_size cfg) ''silu'' lm False h = (Inr m, h1)"
    by blast
  moreover from Suc.IH [OF Suc.prems] obtain ms h2 where "build_experts n cfg lm h1 = (Inr ms, h2)" by blast
  ultimately show ?case using Suc.prems by simp
qed

text \<open>
  Claim C10. Under a quantization backend whose \<^verbatim>\<open>merge_weight()\<close> is false,
  \<^verbatim>\<open>DeepseekMoE.__init__\<close> raises for every configuration. When the configuration passes
  the earlier checks, the error is the \<^verbatim>\<open>AttributeError\<close> of \<^verbatim>\<open>pack_params\<close> reading
  \<^verbatim>\<open>gate_up_proj\<close>: every \<^verbatim>\<open>DeepseekMLP\<close> built under such a backend is in split mode,
  with \<^verbatim>\<open>gate_proj\<close> and \<^verbatim>\<open>up_proj\<close> and without \<^verbatim>\<open>gate_up_proj\<close>. The dense block
  itself is built without error in that mode.
\<close>

theorem moe_requires_fused_layout:
  assumes "\<not> merge_weight qc"
  shows "(\<exists>err. fst (DeepseekMoE_init cfg (Some qc) tp h) = Inl err) \<and>
         (n_routed_experts cfg = Some n \<and> tp \<le> n \<and> 0 < n \<and> hidden_act cfg = ''silu'' \<longrightarrow>
            fst (DeepseekMoE_init cfg (Some qc) tp h) = Inl (AttributeError ''gate_up_proj'')) \<and>
         (\<forall>m h'. DeepseekMLP_init hidden isz act (Some qc) red h = (Inr m, h') \<longrightarrow>
            \<not> mlp_merge_weight m \<and> gate_up_proj m = None \<and> gate_proj m \<noteq> None \<and> up_proj m \<noteq> None) \<and>
         (\<exists>m h'. DeepseekMLP_init hidden isz ''silu'' (Some qc) red h = (Inr m, h'))"
proof -
  have 1: "\<exists>err. fst (DeepseekMoE_init cfg (Some qc) tp h) = Inl err"
    by (rule MoE_init_split_fails [OF assms])
  have 2: "fst (DeepseekMoE_init cfg (Some qc) tp h) = Inl (AttributeError ''gate_up_proj'')"
    if a: "n_routed_experts cfg = Some n \<and> tp \<le> n \<and> 0 < n \<and> hidden_act cfg = ''silu''"
  proof -
    from a obtain es h1 where b: "build_experts n cfg (Some qc) h = (Inr es, h1)"
      using build_experts_silu by blast
    from build_experts_split [OF assms b] a
    have "es \<noteq> []" "\<forall>e \<in> set es. gate_up_proj e = None" by auto
    from pack_params_split_attr [OF this] a b show ?thesis
      by (simp add: DeepseekMoE_init_def)
  qed
  have 3: "\<not> mlp_merge_weight m \<and> gate_up_proj m = None \<and> gate_proj m \<noteq> None \<and> up_proj m \<noteq> None"
    if "DeepseekMLP_init hidden isz act (Some qc) red h = (Inr m, h')" for m h'
    using DeepseekMLP_init_split [OF assms that] .
  have 4: "\<exists>m h'. DeepseekMLP_init hidden isz ''silu'' (Some qc) red h = (Inr m, h')"
    by (rule DeepseekMLP_init_silu)
  from 1 2 3 4 show ?thesis by blast
qed

lemma DeepseekMLP_init_fused:
  "lm = None \<or> merge_weight (the lm) \<Longrightarrow>
   DeepseekMLP_init hidden isz act lm red h = (Inr m, h') \<Longrightarrow> gate_up_proj m \<noteq> None"
  by (auto simp: DeepseekMLP_init_def Let_def split: prod.splits if_splits)

lemma build_experts_fused:
  "lm = None \<or> merge_weight (the lm) \<Longrightarrow> build_experts n cfg lm h = (Inr es, h') \<Longrightarrow>
   \<forall>e \<in> set es. gate_up_proj e \<noteq> None"
proof (induction n arbitrary: h es h')
  case 0 then show ?case by simp
next
  case (Suc n)
  from Suc.prems(2) obtain m h1 ms where
    m: "DeepseekMLP_init (hidden_size cfg) (moe_intermediate_size cfg) (hidden_act cfg) lm False h = (Inr m, h1)"
    and ms: "build_experts n cfg lm h1 = (Inr ms, h')" and es: "es = m # ms"
    by (auto split: prod.splits sum.splits)
  from DeepseekMLP_init_fused [OF Suc.prems(1) m] Suc.IH [OF Suc.prems(1) ms] es
  show ?case by simp
qed

lemma DeepseekMoE_init_succeeds:
  assumes n: "n_routed_experts cfg = Some n" "tp \<le> n" "0 < n"
    and act: "hidden_act cfg = ''silu''"
    and lm: "lm = None \<or> merge_weight (the lm)"
  shows "\<exists>m h'. DeepseekMoE_init cfg lm tp h = (Inr m, h')"
proof -
  from build_experts_silu [OF act] obtain es h1 where b: "build_experts n cfg lm h = (Inr es, h1)"
    by blast
  note f = build_experts_fields [OF b]
  from f n have ne: "es \<noteq> []" by auto
  from f build_experts_fused [OF lm b]
  have u1: "\<forall>e \<in> set es. \<exists>gu. gate_up_proj e = Some gu \<and>
      shape (weight gu) = [moe_intermediate_size cfg + moe_intermediate_size cfg, hidden_size cfg]"
    by auto
  from f have u2: "\<forall>e \<in> set es. shape (weight (down_proj e)) = [hidden_size cfg, moe_intermediate_size cfg]"
    by simp
  obtain r h2 where p: "pack_params es h1 = (r, h2)" by (cases "pack_params es h1")
  from pack_params_expert [OF ne u1 u2 p] obtain es' b1 b2 where r: "r = Inr (es', b1, b2)" by blast
  show ?thesis
  proof (cases "n_shared_experts cfg")
    case None
    with n b p r show ?thesis by (simp add: DeepseekMoE_init_def Let_def split: prod.splits)
  next
    case (Some ns)
    obtain g h3 where g: "ReplicatedLinear (hidden_size cfg) n h2 = (g, h3)"
      by (cases "ReplicatedLinear (hidden_size cfg) n h2")
    from DeepseekMLP_init_silu obtain s h4 where
      "DeepseekMLP_init (hidden_size cfg) (moe_intermediate_size cfg * ns) ''silu'' lm False h3 = (Inr s, h4)"
      by blast
    with Some n b p r g act show ?thesis by (simp add: DeepseekMoE_init_def Let_def)
  qed
qed

lemma DeepseekAttention_init_succeeds:
  "attention_sizes hidden th tkv tp = Inr szs \<Longrightarrow>
   \<exists>a h'. DeepseekAttention_init hidden th tkv lm tp h = (Inr a, h')"
  by (cases szs) (simp add: DeepseekAttention_init_def Let_def split: prod.splits)


subsection \<open>The constructors on the small configuration\<close>

lemma tiny_attention:
  "\<exists>a h'. DeepseekAttention_init (hidden_size tiny_config) (num_attention_heads tiny_config)
      (num_key_value_heads tiny_config) None 1 h = (Inr a, h')"
  by (rule DeepseekAttention_init_succeeds [where szs = "(2, 2, 2)"])
     (simp add: tiny_config_def attention_sizes_def py_mod_def py_floordiv_def)

text \<open>In the small configuration layer 1 is sparse and layer 0 dense.\<close>

theorem decoder_layer_feed_forward_choice_witness:
  "(\<exists>l h'. DeepseekDecoderLayer_init tiny_config 1 None 1 [] = (Inr l, h') \<and> (\<exists>m. mlp l = MoE m)) \<and>
   (\<exists>l h'. DeepseekDecoderLayer_init tiny_config 0 None 1 [] = (Inr l, h') \<and>
      (\<exists>d. mlp l = Dense d \<and> shape (weight (down_proj d)) = [4, 8]))"
proof -
  from tiny_attention obtain a h1 where
    a: "DeepseekAttention_init (hidden_size tiny_config) (num_attention_heads tiny_config)
          (num_key_value_heads tiny_config) None 1 [] = (Inr a, h1)"
    by blast
  have u1: "use_moe tiny_config 1 = Inr True" and u0: "use_moe tiny_config 0 = Inr False"
    by (simp_all add: use_moe_def tiny_config_def)
  from DeepseekMoE_init_succeeds [of tiny_config 2 1 None h1] obtain m h2 where
    m: "DeepseekMoE_init tiny_config None 1 h1 = (Inr m, h2)"
    by (auto simp: tiny_config_def)
  from DeepseekMLP_init_silu obtain d h3 where
    d: "DeepseekMLP_init (hidden_size tiny_config) (intermediate_size tiny_config) ''silu'' None True h1 = (Inr d, h3)"
    by blast
  have l1: "DeepseekDecoderLayer_init tiny_config 1 None 1 [] = (Inr \<lparr>self_attn = a, mlp = MoE m\<rparr>, h2)"
    using a u1 m by (simp add: DeepseekDecoderLayer_init_def)
  have l0: "DeepseekDecoderLayer_init tiny_config 0 None 1 [] = (Inr \<lparr>self_attn = a, mlp = Dense d\<rparr>, h3)"
    using a u0 d by (simp add: DeepseekDecoderLayer_init_def) (simp add: tiny_config_def)
  from decoder_layer_feed_forward_choice [OF l1] decoder_layer_feed_forward_choice [OF l0] l1 l0
  show ?thesis by (simp add: tiny_config_def)
qed

text \<open>Four workers for two experts; the activation \<^verbatim>\<open>gelu\<close>.\<close>

theorem moe_and_mlp_construction_errors_witness:
  "DeepseekMoE_init tiny_config None 4 [] = (Inl ValueError, []) \<and>
   fst (DeepseekMLP_init 4 8 ''gelu'' None True []) = Inl ValueError \<and>
   0 < length (snd (DeepseekMLP_init 4 8 ''gelu'' None True []))"
  using moe_and_mlp_construction_errors [of tiny_config 2 4 None "[]" "''gelu''" 4 8 True]
  by (simp add: tiny_config_def)

text \<open>The small configuration under a backend that forbids fused weights.\<close>

theorem moe_requires_fused_layout_witness:
  "fst (DeepseekMoE_init tiny_config (Some \<lparr>merge_weight = False, rope_style = None\<rparr>) 1 []) =
     Inl (AttributeError ''gate_up_proj'') \<and>
   (\<exists>m h'. DeepseekMLP_init 4 8 ''silu'' (Some \<lparr>merge_weight = False, rope_style = None\<rparr>) True [] = (Inr m, h') \<and>
      gate_up_proj m = None \<and> gate_proj m \<noteq> None \<and> up_proj m \<noteq> None)"
proof -
  have q: "\<not> merge_weight \<lparr>merge_weight = False, rope_style = None\<rparr>" by simp
  note t = moe_requires_fused_layout [OF q, of tiny_config 1 "[]" 2 4 8 "''silu''" True]
  from t obtain m h' where
    "DeepseekMLP_init 4 8 ''silu'' (Some \<lparr>merge_weight = False, rope_style = None\<rparr>) True [] = (Inr m, h')"
    by blast
  with t show ?thesis by (auto simp: tiny_config_def)
qed


text \<open>
  The two toy experts: after packing, the second expert's weights are the second slices
  of the banks and hold what they held before; the same for the small configuration.
\<close>

theorem expert_weights_alias_banks_witness:
  "(\<exists>es' b1 b2 h'. pack_params [toy_expert 0, toy_expert 1] toy_heap = (Inr (es', b1, b2), h') \<and>
      weight (the (gate_up_proj (es' ! 1))) = bank_slice b1 1 \<and>
      weight (down_proj (es' ! 1)) = bank_slice b2 1 \<and>
      tensor_data h' (bank_slice b1 1) = [3, 4] \<and>
      tensor_data h' (bank_slice b2 1) = [6] \<and>
      tensor_get (tensor_set (bank_slice b1 1) 0 9 h') b1 2 = 9 \<and>
      take 2 (drop 2 (tensor_data (default_weight_loader (bank_slice b1 1) [7, 8] h') b1)) = [7, 8]) \<and>
   (\<exists>m h1. DeepseekMoE_init tiny_config None 1 [] = (Inr m, h1) \<and>
      weight (down_proj (experts m ! 1)) = bank_slice (w2 m) 1)"
proof -
  let ?es = "[toy_expert 0, toy_expert 1]"
  have u1: "\<forall>e \<in> set ?es. \<exists>gu. gate_up_proj e = Some gu \<and> shape (weight gu) = [2, 1]"
    and u2: "\<forall>e \<in> set ?es. shape (weight (down_proj e)) = [1, 1]"
    by (simp_all add: toy_expert_def)
  have ne: "?es \<noteq> []" by simp
  obtain es' b1 b2 h' where
    p: "pack_params ?es toy_heap = (Inr (es', b1, b2), h')"
    using pack_params_uniform [OF ne u1 u2] by blast
  from p have b1: "b1 = \<lparr>storage = 4, offset = 0, shape = [2, 2, 1]\<rparr>"
    and h': "h' = [[1, 2], [5], [3, 4], [6], [1, 2, 3, 4], [5, 6]]"
    unfolding pack_params_uniform [OF ne u1 u2]
    by (auto simp: toy_heap_def toy_expert_def gate_up_weights_def down_weights_def
        tensor_data_def numel_def eval_nat_numeral)
  have v1: "\<forall>e \<in> set ?es. \<exists>gu. gate_up_proj e = Some gu \<and> shape (weight gu) = [2, 1] \<and>
        valid_tensor toy_heap (weight gu)"
    and v2: "\<forall>e \<in> set ?es. shape (weight (down_proj e)) = [1, 1] \<and>
        valid_tensor toy_heap (weight (down_proj e))"
    by (simp_all add: toy_expert_def toy_heap_def valid_tensor_def numel_def)
  from DeepseekMoE_init_succeeds [of tiny_config 2 1 None "[]"] obtain m h1 where
    m: "DeepseekMoE_init tiny_config None 1 [] = (Inr m, h1)"
    by (auto simp: tiny_config_def)
  from DeepseekMoE_init_experts [OF m] have k: "1 < length (experts m)"
    by (simp add: tiny_config_def)
  have vb: "valid_tensor h' b1" by (simp add: b1 h' valid_tensor_def numel_def)
  note t = expert_weights_alias_banks [where es = ?es and h = toy_heap and es' = es' and
      ?b1.0 = b1 and ?b2.0 = b2 and h' = h' and ?s1.0 = "[2, 1]" and ?s2.0 = "[1, 1]" and i = 1 and
      cfg = tiny_config and lm = None and tp = 1 and ?h0.0 = "[]" and m = m and ?h1.0 = h1 and
      k = 1 and b = b1 and n = 2 and s = "[2, 1]" and j = 0 and hh = h' and v = 9 and
      src = "[7, 8]"]
  have i: "(1::nat) < length ?es" by simp
  from t [THEN conjunct1] p v1 v2 i have A:
    "\<exists>gu gu'. gate_up_proj (?es ! 1) = Some gu \<and> gate_up_proj (es' ! 1) = Some gu' \<and>
         weight gu' = bank_slice b1 1 \<and> weight (down_proj (es' ! 1)) = bank_slice b2 1 \<and>
         shape b1 = length ?es # [2, 1] \<and> shape b2 = length ?es # [1, 1] \<and>
         tensor_data h' (bank_slice b1 1) = tensor_data toy_heap (weight gu) \<and>
         tensor_data h' (bank_slice b2 1) = tensor_data toy_heap (weight (down_proj (?es ! 1)))"
    by blast
  from t [THEN conjunct2, THEN conjunct1] m k have B:
    "weight (down_proj (experts m ! 1)) = bank_slice (w2 m) 1"
    by blast
  have hd: "shape b1 = 2 # [2, 1] \<and> (1::nat) < 2 \<and> (0::nat) < prod_list [2, 1] \<and> valid_tensor h' b1"
    using vb by (simp add: b1)
  have he: "shape b1 = 2 # [2, 1] \<and> (1::nat) < 2 \<and> valid_tensor h' b1 \<and>
      length [7, 8 :: real] = prod_list [2, 1]"
    using vb by (simp add: b1)
  from t [THEN conjunct2, THEN conjunct2, THEN conjunct2, THEN conjunct1] hd have D:
    "tensor_get (tensor_set (bank_slice b1 1) 0 9 h') b1 (1 * prod_list [2, 1] + 0) = 9"
    by blast
  from t [THEN conjunct2, THEN conjunct2, THEN conjunct2, THEN conjunct2] he have E:
    "take (prod_list [2, 1]) (drop (1 * prod_list [2, 1])
        (tensor_data (default_weight_loader (bank_slice b1 1) [7, 8] h') b1)) = [7, 8]"
    by blast
  from A have A': "weight (the (gate_up_proj (es' ! 1))) = bank_slice b1 1"
      "weight (down_proj (es' ! 1)) = bank_slice b2 1"
      "tensor_data h' (bank_slice b1 1) = [3, 4]"
      "tensor_data h' (bank_slice b2 1) = [6]"
    by (auto simp: toy_expert_def toy_heap_def tensor_data_def numel_def)
  from D E have "tensor_get (tensor_set (bank_slice b1 1) 0 9 h') b1 2 = 9"
      "take 2 (drop 2 (tensor_data (default_weight_loader (bank_slice b1 1) [7, 8] h') b1)) = [7, 8]"
    by simp_all
  with p m A' B show ?thesis by blast
qed


subsection \<open>Routing\<close>

lemma softmax_length [simp]: "length (softmax xs) = length xs"
  by (simp add: softmax_def)

lemma sum_exp_nonneg: "0 \<le> sum_list (map exp (xs::real list))"
  by (rule sum_list_nonneg) auto

lemma sum_exp_pos: "xs \<noteq> [] \<Longrightarrow> 0 < sum_list (map exp (xs::real list))"
proof (cases xs)
  case Nil
  assume "xs \<noteq> []"
  with Nil show ?thesis by simp
next
  case (Cons a ys)
  have "0 < exp a + sum_list (map exp ys)"
    by (rule add_pos_nonneg) (simp_all add: sum_exp_nonneg)
  with Cons show ?thesis by simp
qed

lemma softmax_pos: "x \<in> set (softmax xs) \<Longrightarrow> 0 < x"
proof -
  assume a: "x \<in> set (softmax xs)"
  then have "xs \<noteq> []" by (auto simp: softmax_def)
  from sum_exp_pos [OF this] a show ?thesis by (auto simp: softmax_def)
qed

lemma sum_list_divide: "sum_list (map (\<lambda>w. w / c) ws) = sum_list ws / (c::real)"
  by (induction ws) (auto simp: add_divide_distrib)

lemma softmax_sum: "xs \<noteq> [] \<Longrightarrow> sum_list (softmax xs) = 1"
proof -
  assume "xs \<noteq> []"
  from sum_exp_pos [OF this] have "sum_list (map exp xs) \<noteq> 0" by simp
  moreover have "sum_list (softmax xs) = sum_list (map exp xs) / sum_list (map exp xs)"
    unfolding softmax_def using sum_list_divide [of "sum_list (map exp xs)" "map exp xs"]
    by (simp add: comp_def)
  ultimately show ?thesis by simp
qed

lemma ranked_set: "set (ranked xs) = {(xs ! i, i) | i. i < length xs}"
  by (auto simp: ranked_def set_zip)

lemma ranked_length [simp]: "length (ranked xs) = length xs"
  by (simp add: ranked_def)

lemma ranked_mset: "mset (ranked xs) = mset (zip xs [0..<length xs])"
  by (simp add: ranked_def)

lemma ranked_snd_mset: "mset (map snd (ranked xs)) = mset [0..<length xs]"
proof -
  have "mset (map snd (ranked xs)) = image_mset snd (mset (zip xs [0..<length xs]))"
    by (simp only: mset_map ranked_mset)
  also have "\<dots> = mset (map snd (zip xs [0..<length xs]))" by (simp only: mset_map [symmetric])
  also have "map snd (zip xs [0..<length xs]) = [0..<length xs]" by simp
  finally show ?thesis .
qed

lemma ranked_fst_mset: "mset (map fst (ranked xs)) = mset xs"
proof -
  have "mset (map fst (ranked xs)) = image_mset fst (mset (zip xs [0..<length xs]))"
    by (simp only: mset_map ranked_mset)
  also have "\<dots> = mset (map fst (zip xs [0..<length xs]))" by (simp only: mset_map [symmetric])
  also have "map fst (zip xs [0..<length xs]) = xs" by simp
  finally show ?thesis .
qed

lemma ranked_distinct: "distinct (map snd (ranked xs))"
  using ranked_snd_mset [of xs] mset_eq_imp_distinct_iff [of "map snd (ranked xs)" "[0..<length xs]"]
  by simp

lemma ranked_sum: "sum_list (map fst (ranked xs)) = sum_list xs"
  using ranked_fst_mset [of xs] by (metis sum_mset_sum_list)

lemma ranked_sorted: "sorted (map (\<lambda>(v, i). - v) (ranked xs))"
  by (simp add: ranked_def)

lemma ranked_split_le:
  assumes "a \<in> set (take k (ranked xs))" "b \<in> set (drop k (ranked xs))"
  shows "fst b \<le> fst a"
proof -
  have "sorted (map (\<lambda>(v, i). - v) (take k (ranked xs) @ drop k (ranked xs)))"
    using ranked_sorted [of xs] by simp
  then have "\<forall>x \<in> set (take k (ranked xs)). \<forall>y \<in> set (drop k (ranked xs)).
      (\<lambda>(v, i). - v) x \<le> (\<lambda>(v, i). - v) y"
    unfolding map_append sorted_append by auto
  with assms show ?thesis by (auto simp: case_prod_beta)
qed

lemma topk_ranked:
  "topk xs k = (if k > length xs then Inl RuntimeError
                else Inr (map fst (take k (ranked xs)), map snd (take k (ranked xs))))"
  by (simp add: topk_def ranked_def Let_def)

lemma topk_props:
  assumes k: "k \<le> length xs" and t: "topk xs k = Inr (vs, ids)"
  shows "length vs = k" "length ids = k" "distinct ids" "\<forall>i \<in> set ids. i < length xs"
    "vs = map (\<lambda>i. xs ! i) ids"
    "\<forall>j < length xs. j \<notin> set ids \<longrightarrow> (\<forall>i \<in> set ids. xs ! j \<le> xs ! i)"
    "sum_list vs + sum_list (map fst (drop k (ranked xs))) = sum_list xs"
proof -
  let ?ps = "take k (ranked xs)"
  from k t have vs: "vs = map fst ?ps" and ids: "ids = map snd ?ps"
    by (simp_all add: topk_ranked)
  from k show "length vs = k" "length ids = k" by (simp_all add: vs ids)
  show "distinct ids"
    unfolding ids take_map [symmetric] by (rule distinct_take) (rule ranked_distinct)
  have sub: "set ?ps \<subseteq> set (ranked xs)" by (rule set_take_subset)
  with ranked_set [of xs] have el: "\<forall>p \<in> set ?ps. snd p < length xs \<and> fst p = xs ! snd p"
    by auto
  then show "\<forall>i \<in> set ids. i < length xs" by (auto simp: ids)
  from el show "vs = map (\<lambda>i. xs ! i) ids" by (simp add: vs ids)
  show "\<forall>j < length xs. j \<notin> set ids \<longrightarrow> (\<forall>i \<in> set ids. xs ! j \<le> xs ! i)"
  proof (intro allI impI ballI)
    fix j i assume j: "j < length xs" "j \<notin> set ids" and i: "i \<in> set ids"
    have "set (ranked xs) = set ?ps \<union> set (drop k (ranked xs))"
      by (metis append_take_drop_id set_append)
    with j(1) ranked_set [of xs] have "(xs ! j, j) \<in> set ?ps \<union> set (drop k (ranked xs))" by auto
    moreover from j(2) have "(xs ! j, j) \<notin> set ?ps"
      unfolding ids by (metis image_eqI set_map snd_conv)
    ultimately have b: "(xs ! j, j) \<in> set (drop k (ranked xs))" by blast
    from i obtain p where p: "p \<in> set ?ps" "snd p = i" by (auto simp: ids)
    with el have "fst p = xs ! i" by auto
    with ranked_split_le [OF p(1) b] show "xs ! j \<le> xs ! i" by simp
  qed
  have "sum_list (map fst ?ps) + sum_list (map fst (drop k (ranked xs))) =
        sum_list (map fst (?ps @ drop k (ranked xs)))"
    by (simp only: map_append sum_list_append)
  also have "\<dots> = sum_list (map fst (ranked xs))" by (simp only: append_take_drop_id)
  finally show "sum_list vs + sum_list (map fst (drop k (ranked xs))) = sum_list xs"
    by (simp add: vs ranked_sum)
qed

lemma sum_list_pos_real:
  "xs \<noteq> [] \<Longrightarrow> \<forall>x \<in> set xs. 0 < x \<Longrightarrow> 0 < sum_list (xs::real list)"
proof (cases xs)
  case Nil
  assume "xs \<noteq> []"
  with Nil show ?thesis by simp
next
  case (Cons a ys)
  assume "\<forall>x \<in> set xs. 0 < x"
  with Cons have "0 < a" "\<forall>x \<in> set ys. 0 \<le> x" by auto
  then have "0 < a + sum_list ys" by (intro add_pos_nonneg sum_list_nonneg) auto
  with Cons show ?thesis by simp
qed

lemma ranked_fst_in: "p \<in> set (ranked xs) \<Longrightarrow> fst p \<in> set xs"
  by (auto simp: ranked_set)

lemma softmax_rest_pos:
  "\<forall>x \<in> set (map fst (drop k (ranked (softmax xs)))). 0 < x"
proof
  fix x assume "x \<in> set (map fst (drop k (ranked (softmax xs))))"
  then obtain p where "p \<in> set (drop k (ranked (softmax xs)))" "x = fst p" by auto
  then have "x \<in> set (softmax xs)" using ranked_fst_in [of p] in_set_dropD by fastforce
  then show "0 < x" by (rule softmax_pos)
qed

lemma softmax_nth:
  "i < length xs \<Longrightarrow> softmax xs ! i = exp (xs ! i) / sum_list (map exp xs)"
  by (simp add: softmax_def)

lemma route_token_props:
  assumes k: "k \<le> length logits"
  shows "\<exists>ws ids. route_token renorm k logits = Inr (ws, ids) \<and>
      length ws = k \<and> length ids = k \<and> distinct ids \<and> (\<forall>i \<in> set ids. i < length logits) \<and>
      (\<forall>j < length logits. j \<notin> set ids \<longrightarrow>
          (\<forall>i \<in> set ids. softmax logits ! j \<le> softmax logits ! i)) \<and>
      (renorm \<longrightarrow>
          ws = map (\<lambda>i. softmax logits ! i / sum_list (map (\<lambda>i. softmax logits ! i) ids)) ids \<and>
          sum_list ws = (if k = 0 then 0 else 1)) \<and>
      (\<not> renorm \<longrightarrow>
          ws = map (\<lambda>i. softmax logits ! i) ids \<and>
          sum_list ws = sum_list (map (\<lambda>i. softmax logits ! i) ids))"
proof -
  let ?sm = "softmax logits"
  from k have k': "k \<le> length ?sm" by simp
  obtain vs ids where t: "topk ?sm k = Inr (vs, ids)"
    using k' by (simp add: topk_ranked)
  note p = topk_props [OF k' t]
  have vpos: "\<forall>x \<in> set vs. 0 < x"
  proof
    fix x assume "x \<in> set vs"
    with p(4,5) have "x \<in> set ?sm" by auto
    then show "0 < x" by (rule softmax_pos)
  qed
  have r: "route_token renorm k logits =
      Inr (if renorm then map (\<lambda>w. w / sum_list vs) vs else vs, ids)"
    by (simp add: route_token_def bindE_def t)
  have n1: "map (\<lambda>w. w / sum_list vs) vs =
      map (\<lambda>i. ?sm ! i / sum_list (map (\<lambda>i. ?sm ! i) ids)) ids"
    by (simp add: p(5) comp_def)
  have n2: "sum_list (map (\<lambda>w. w / sum_list vs) vs) = (if k = 0 then 0 else 1)"
  proof (cases "k = 0")
    case True
    with p(1) show ?thesis by simp
  next
    case False
    with p(1) have "vs \<noteq> []" by auto
    from sum_list_pos_real [OF this vpos] False show ?thesis by (simp add: sum_list_divide)
  qed
  have n3: "sum_list vs = sum_list (map (\<lambda>i. ?sm ! i) ids)" by (simp add: p(5))
  show ?thesis
  proof (cases renorm)
    case True
    with r n1 n2 p show ?thesis by simp
  next
    case False
    with r n3 p show ?thesis by simp
  qed
qed

lemma route_token_too_many:
  "k > length logits \<Longrightarrow> route_token renorm k logits = Inl RuntimeError"
  by (simp add: route_token_def bindE_def topk_def)

subsection \<open>The dense block in its two layouts\<close>

lemma F_linear_Inl: "F_linear W x = Inl e \<Longrightarrow> e = RuntimeError"
  by (auto simp: F_linear_def split: if_splits)

lemma mapE_F_linear_Inl: "mapE (F_linear W) xs = Inl e \<Longrightarrow> e = RuntimeError"
  by (induction xs arbitrary: e) (auto simp: bindE_def split: sum.splits dest: F_linear_Inl)

lemma F_linear_append:
  "F_linear (W1 @ W2) x =
     bindE (F_linear W1 x) (\<lambda>a. bindE (F_linear W2 x) (\<lambda>b. Inr (a @ b)))"
  by (auto simp: F_linear_def bindE_def)

lemma mapE_length: "mapE f xs = Inr ys \<Longrightarrow> length ys = length xs"
  by (induction xs arbitrary: ys) (auto simp: bindE_def split: sum.splits)

lemma mapE_F_linear_append:
  "mapE (F_linear (W1 @ W2)) xs =
     bindE (mapE (F_linear W2) xs) (\<lambda>up. bindE (mapE (F_linear W1) xs)
       (\<lambda>gate. Inr (map2 (@) gate up)))"
proof (induction xs)
  case Nil
  then show ?case by (simp add: bindE_def)
next
  case (Cons x xs)
  have "mapE (F_linear (W1 @ W2)) (x # xs) =
      bindE (bindE (F_linear W1 x) (\<lambda>a. bindE (F_linear W2 x) (\<lambda>b. Inr (a @ b))))
        (\<lambda>y. bindE (bindE (mapE (F_linear W2) xs) (\<lambda>up. bindE (mapE (F_linear W1) xs)
           (\<lambda>gate. Inr (map2 (@) gate up)))) (\<lambda>ys. Inr (y # ys)))"
    by (simp only: mapE.simps Cons.IH F_linear_append)
  then show ?case
    by (auto simp: bindE_def split: sum.splits dest: F_linear_Inl mapE_F_linear_Inl)
qed

lemma DeepseekMLP_init_layout:
  assumes "DeepseekMLP_init hidden isz act lm red h0 = (Inr m, h1)"
  shows "reduce_results (down_proj m) = red \<and>
         (if lm \<noteq> None \<and> \<not> merge_weight (the lm)
          then \<not> mlp_merge_weight m \<and> gate_up_proj m = None \<and>
               (\<exists>g u. gate_proj m = Some g \<and> up_proj m = Some u)
          else mlp_merge_weight m \<and> gate_proj m = None \<and> up_proj m = None \<and>
               (\<exists>gu. gate_up_proj m = Some gu))"
  using assms
  by (auto simp: DeepseekMLP_init_def Let_def RowParallelLinear_def torch_empty_def
      split: prod.splits if_splits)

lemma RowParallelLinear_forward_rows:
  assumes "tensor_rows h (weight l) = tensor_rows h' (weight l')"
    and "reduce_results l = reduce_results l'"
  shows "RowParallelLinear_forward ar h l x s = RowParallelLinear_forward ar h' l' x s"
  using assms by (simp add: RowParallelLinear_forward_def linear_forward_def cong: sum.case_cong)

text \<open>
  Claim C4. Build one block in fused mode and one in split mode, with the same sizes,
  activation and \<^verbatim>\<open>reduce_results\<close>, each on any heap. The fused block has the single
  layer \<^verbatim>\<open>gate_up_proj\<close>, the split block the layers \<^verbatim>\<open>gate_proj\<close> and \<^verbatim>\<open>up_proj\<close>. Let the
  weights be loaded so that the fused weight holds the rows of the gate weight followed
  by the rows of the up weight (the layout of the stacking table: \<^verbatim>\<open>gate_proj\<close> as shard
  0, \<^verbatim>\<open>up_proj\<close> as shard 1) and the two down weights hold the same rows; the blocks
  may live in one heap or in two. Then for every input the fused projection returns
  what the split block concatenates, gate first and up second, and the two forward
  passes return the same result and perform the same reductions.
\<close>

theorem mlp_forward_mode_independent:
  assumes f: "DeepseekMLP_init hidden isz act lmf red hf0 = (Inr mf, hf1)"
    and fused: "lmf = None \<or> merge_weight (the lmf)"
    and s: "DeepseekMLP_init hidden isz act (Some qc) red hs0 = (Inr ms, hs1)"
    and split: "\<not> merge_weight qc"
  shows "\<exists>gu g u. mlp_merge_weight mf \<and> gate_up_proj mf = Some gu \<and>
           \<not> mlp_merge_weight ms \<and> gate_proj ms = Some g \<and> up_proj ms = Some u \<and>
           (\<forall>hf hs x ar st.
              tensor_rows hf (weight gu) = tensor_rows hs (weight g) @ tensor_rows hs (weight u) \<and>
              tensor_rows hf (weight (down_proj mf)) = tensor_rows hs (weight (down_proj ms)) \<longrightarrow>
                mlp_gate_up hf mf x = mlp_gate_up hs ms x \<and>
                mlp_gate_up hs ms x =
                  bindE (linear_forward hs u x) (\<lambda>up. bindE (linear_forward hs g x)
                    (\<lambda>gate. Inr (map2 (@) gate up))) \<and>
                DeepseekMLP_forward ar hf mf x st = DeepseekMLP_forward ar hs ms x st)"
proof -
  from DeepseekMLP_init_layout [OF f] fused obtain gu where
    mf: "mlp_merge_weight mf" "gate_up_proj mf = Some gu" "reduce_results (down_proj mf) = red"
    by auto
  from DeepseekMLP_init_layout [OF s] split obtain g u where
    ms: "\<not> mlp_merge_weight ms" "gate_proj ms = Some g" "up_proj ms = Some u"
      "reduce_results (down_proj ms) = red"
    by auto
  have "mlp_gate_up hf mf x = mlp_gate_up hs ms x \<and>
        mlp_gate_up hs ms x =
          bindE (linear_forward hs u x) (\<lambda>up. bindE (linear_forward hs g x)
            (\<lambda>gate. Inr (map2 (@) gate up))) \<and>
        DeepseekMLP_forward ar hf mf x st = DeepseekMLP_forward ar hs ms x st"
    if w: "tensor_rows hf (weight gu) = tensor_rows hs (weight g) @ tensor_rows hs (weight u)"
      and d: "tensor_rows hf (weight (down_proj mf)) = tensor_rows hs (weight (down_proj ms))"
    for hf hs x ar st
  proof -
    have a: "mlp_gate_up hs ms x =
        bindE (linear_forward hs u x) (\<lambda>up. bindE (linear_forward hs g x)
          (\<lambda>gate. Inr (map2 (@) gate up)))"
      using ms by (simp add: mlp_gate_up_def)
    have b: "mlp_gate_up hf mf x = mlp_gate_up hs ms x"
      unfolding a using mf by (simp add: mlp_gate_up_def linear_forward_def w mapE_F_linear_append)
    have c: "RowParallelLinear_forward ar hf (down_proj mf) y st =
        RowParallelLinear_forward ar hs (down_proj ms) y st" for y
      by (rule RowParallelLinear_forward_rows) (simp_all add: d mf ms)
    from a b c show ?thesis by (simp add: DeepseekMLP_forward_def cong: sum.case_cong)
  qed
  with mf ms show ?thesis by blast
qed

lemma toy_fused_init:
  "DeepseekMLP_init 2 1 ''silu'' None True [] =
     (Inr \<lparr>mlp_merge_weight = True, gate_proj = None, up_proj = None,
           gate_up_proj = Some \<lparr>weight = \<lparr>storage = 0, offset = 0, shape = [2, 2]\<rparr>,
                                reduce_results = False\<rparr>,
           down_proj = \<lparr>weight = \<lparr>storage = 1, offset = 0, shape = [2, 1]\<rparr>,
                        reduce_results = True\<rparr>\<rparr>,
      [[0, 0, 0, 0], [0, 0]])"
  by (simp add: DeepseekMLP_init_def MergedColumnParallelLinear_def RowParallelLinear_def
      torch_empty_def Let_def eval_nat_numeral)

lemma toy_split_init:
  "DeepseekMLP_init 2 1 ''silu'' (Some split_backend) True [[0, 0, 0, 0], [0, 0]] =
     (Inr \<lparr>mlp_merge_weight = False,
           gate_proj = Some \<lparr>weight = \<lparr>storage = 2, offset = 0, shape = [1, 2]\<rparr>,
                             reduce_results = False\<rparr>,
           up_proj = Some \<lparr>weight = \<lparr>storage = 3, offset = 0, shape = [1, 2]\<rparr>,
                           reduce_results = False\<rparr>,
           gate_up_proj = None,
           down_proj = \<lparr>weight = \<lparr>storage = 4, offset = 0, shape = [2, 1]\<rparr>,
                        reduce_results = True\<rparr>\<rparr>,
      [[0, 0, 0, 0], [0, 0], [0, 0], [0, 0], [0, 0]])"
  by (simp add: DeepseekMLP_init_def ColumnParallelLinear_def RowParallelLinear_def
      torch_empty_def Let_def split_backend_def eval_nat_numeral)

lemma toy_rows:
  "tensor_rows toy_mlp_heap \<lparr>storage = 0, offset = 0, shape = [2, 2]\<rparr> = [[1, 2], [3, 4]]"
  "tensor_rows toy_mlp_heap \<lparr>storage = 1, offset = 0, shape = [2, 1]\<rparr> = [[1], [1]]"
  "tensor_rows toy_mlp_heap \<lparr>storage = 2, offset = 0, shape = [1, 2]\<rparr> = [[1, 2]]"
  "tensor_rows toy_mlp_heap \<lparr>storage = 3, offset = 0, shape = [1, 2]\<rparr> = [[3, 4]]"
  "tensor_rows toy_mlp_heap \<lparr>storage = 4, offset = 0, shape = [2, 1]\<rparr> = [[1], [1]]"
  by (simp_all add: tensor_rows_def toy_mlp_heap_def upt_rec [of 0] upt_rec [of 1] upt_rec [of "Suc _"])

lemma toy_split_gate_up:
  "mlp_gate_up toy_mlp_heap
     \<lparr>mlp_merge_weight = False,
      gate_proj = Some \<lparr>weight = \<lparr>storage = 2, offset = 0, shape = [1, 2]\<rparr>,
                        reduce_results = False\<rparr>,
      up_proj = Some \<lparr>weight = \<lparr>storage = 3, offset = 0, shape = [1, 2]\<rparr>,
                      reduce_results = False\<rparr>,
      gate_up_proj = None,
      down_proj = \<lparr>weight = \<lparr>storage = 4, offset = 0, shape = [2, 1]\<rparr>,
                   reduce_results = True\<rparr>\<rparr> [[1, 0]] = Inr [[1, 3]]"
  by (simp add: mlp_gate_up_def linear_forward_def tensor_rows_def toy_mlp_heap_def F_linear_def
      bindE_def dot_product_def upt_rec [of 0] upt_rec [of 1] upt_rec [of "Suc _"])

lemma toy_split_forward:
  "DeepseekMLP_forward id toy_mlp_heap
     \<lparr>mlp_merge_weight = False,
      gate_proj = Some \<lparr>weight = \<lparr>storage = 2, offset = 0, shape = [1, 2]\<rparr>,
                        reduce_results = False\<rparr>,
      up_proj = Some \<lparr>weight = \<lparr>storage = 3, offset = 0, shape = [1, 2]\<rparr>,
                      reduce_results = False\<rparr>,
      gate_up_proj = None,
      down_proj = \<lparr>weight = \<lparr>storage = 4, offset = 0, shape = [2, 1]\<rparr>,
                   reduce_results = True\<rparr>\<rparr> [[1, 0]] 0 =
   (Inr [[silu 1 * 3, silu 1 * 3]], 1)"
  unfolding DeepseekMLP_forward_def toy_split_gate_up
  by (simp add: RowParallelLinear_forward_def linear_forward_def tensor_rows_def toy_mlp_heap_def
      F_linear_def bindE_def dot_product_def SiluAndMul_def upt_rec [of 0] upt_rec [of 1]
      upt_rec [of "Suc _"])

text \<open>
  The two blocks built one after the other on the empty heap, with the weights of
  \<open>toy_mlp_heap\<close>, on the token (1 0): gate 1 and up 3 in both layouts, and the same
  output after one reduction.
\<close>

theorem mlp_forward_mode_independent_witness:
  "\<exists>mf hf1 ms hs1.
     DeepseekMLP_init 2 1 ''silu'' None True [] = (Inr mf, hf1) \<and>
     DeepseekMLP_init 2 1 ''silu'' (Some split_backend) True hf1 = (Inr ms, hs1) \<and>
     mlp_gate_up toy_mlp_heap mf [[1, 0]] = Inr [[1, 3]] \<and>
     mlp_gate_up toy_mlp_heap ms [[1, 0]] = Inr [[1, 3]] \<and>
     DeepseekMLP_forward id toy_mlp_heap mf [[1, 0]] 0 = (Inr [[silu 1 * 3, silu 1 * 3]], 1) \<and>
     DeepseekMLP_forward id toy_mlp_heap ms [[1, 0]] 0 = (Inr [[silu 1 * 3, silu 1 * 3]], 1)"
proof -
  let ?mf = "\<lparr>mlp_merge_weight = True, gate_proj = None, up_proj = None,
           gate_up_proj = Some \<lparr>weight = \<lparr>storage = 0, offset = 0, shape = [2, 2]\<rparr>,
                                reduce_results = False\<rparr>,
           down_proj = \<lparr>weight = \<lparr>storage = 1, offset = 0, shape = [2, 1]\<rparr>,
                        reduce_results = True\<rparr>\<rparr>"
  let ?ms = "\<lparr>mlp_merge_weight = False,
      gate_proj = Some \<lparr>weight = \<lparr>storage = 2, offset = 0, shape = [1, 2]\<rparr>,
                        reduce_results = False\<rparr>,
      up_proj = Some \<lparr>weight = \<lparr>storage = 3, offset = 0, shape = [1, 2]\<rparr>,
                      reduce_results = False\<rparr>,
      gate_up_proj = None,
      down_proj = \<lparr>weight = \<lparr>storage = 4, offset = 0, shape = [2, 1]\<rparr>,
                   reduce_results = True\<rparr>\<rparr>"
  have sb: "\<not> merge_weight split_backend" by (simp add: split_backend_def)
  have fu: "None = None \<or> merge_weight (the (None :: quant_config option))" by simp
  from mlp_forward_mode_independent [OF toy_fused_init fu toy_split_init sb] obtain gu g u where
    l: "gate_up_proj ?mf = Some gu" "gate_proj ?ms = Some g" "up_proj ?ms = Some u" and
    e: "\<And>hf hs x ar st.
          tensor_rows hf (weight gu) = tensor_rows hs (weight g) @ tensor_rows hs (weight u) \<Longrightarrow>
          tensor_rows hf (weight (down_proj ?mf)) = tensor_rows hs (weight (down_proj ?ms)) \<Longrightarrow>
            mlp_gate_up hf ?mf x = mlp_gate_up hs ?ms x \<and>
            DeepseekMLP_forward ar hf ?mf x st = DeepseekMLP_forward ar hs ?ms x st"
    by blast
  have w: "tensor_rows toy_mlp_heap (weight gu) =
      tensor_rows toy_mlp_heap (weight g) @ tensor_rows toy_mlp_heap (weight u)"
    using l by (auto simp: tensor_rows_def toy_mlp_heap_def upt_rec [of 0] upt_rec [of 1]
        upt_rec [of "Suc _"])
  have d: "tensor_rows toy_mlp_heap (weight (down_proj ?mf)) =
      tensor_rows toy_mlp_heap (weight (down_proj ?ms))"
    by (simp add: tensor_rows_def toy_mlp_heap_def upt_rec [of 0] upt_rec [of 1]
        upt_rec [of "Suc _"])
  from e [OF w d, of "[[1, 0]]" id 0] toy_split_gate_up toy_split_forward
  have "mlp_gate_up toy_mlp_heap ?mf [[1, 0]] = Inr [[1, 3]]"
    "DeepseekMLP_forward id toy_mlp_heap ?mf [[1, 0]] 0 = (Inr [[silu 1 * 3, silu 1 * 3]], 1)"
    by simp_all
  with toy_fused_init toy_split_init toy_split_gate_up toy_split_forward
  show ?thesis by blast
qed

subsection \<open>The sparse block: one reduction\<close>

lemma RowParallelLinear_forward_local:
  "\<not> reduce_results l \<Longrightarrow>
   RowParallelLinear_forward ar h l x s = (linear_forward h l x, s)"
  by (simp add: RowParallelLinear_forward_def split: sum.splits)

lemma DeepseekMLP_forward_local:
  assumes "\<not> reduce_results (down_proj m)"
  shows "DeepseekMLP_forward ar h m x s = (fst (DeepseekMLP_forward id h m x s), s)"
  using assms
  by (simp add: DeepseekMLP_forward_def RowParallelLinear_forward_local split: sum.splits)

lemma DeepseekMoE_init_shared:
  assumes ok: "DeepseekMoE_init cfg lm tp h0 = (Inr m, h1)"
  shows "moe_config m = cfg \<and>
         (case n_shared_experts cfg of
            None \<Rightarrow> shared_experts m = None
          | Some ns \<Rightarrow>
              (\<exists>sh. shared_experts m = Some sh \<and> \<not> reduce_results (down_proj sh) \<and>
                 shape (weight (down_proj sh)) = [hidden_size cfg, moe_intermediate_size cfg * ns]))"
proof -
  from DeepseekMoE_init_unfold [OF ok] obtain n h2 where
    c: "moe_config m = cfg" and
    sh: "case n_shared_experts cfg of
              None \<Rightarrow> shared_experts m = None
            | Some ns \<Rightarrow>
                (\<exists>s h4. DeepseekMLP_init (hidden_size cfg) (moe_intermediate_size cfg * ns)
                           (hidden_act cfg) lm False (snd (ReplicatedLinear (hidden_size cfg) n h2)) = (Inr s, h4) \<and>
                         shared_experts m = Some s)"
    by blast
  show ?thesis
  proof (cases "n_shared_experts cfg")
    case None
    with c sh show ?thesis by simp
  next
    case (Some ns)
    with sh obtain s h3 h4 where
      i: "DeepseekMLP_init (hidden_size cfg) (moe_intermediate_size cfg * ns) (hidden_act cfg) lm False h3 = (Inr s, h4)"
      and e: "shared_experts m = Some s" by auto
    from DeepseekMLP_init_fields [OF i] e c Some show ?thesis by simp
  qed
qed

text \<open>
  Claim C5. Let \<^verbatim>\<open>DeepseekMoE.__init__\<close> return the block. Every expert's down projection
  and the shared expert's down projection carry \<^verbatim>\<open>reduce_results = False\<close>, and the
  shared expert, present exactly when \<^verbatim>\<open>n_shared_experts\<close> is configured, has the
  intermediate width \<^verbatim>\<open>moe_intermediate_size * n_shared_experts\<close>. A forward call with
  the collective \<open>ar\<close> returns what the same call returns when no reduction changes
  anything (\<open>ar\<close> the identity), with \<open>ar\<close> applied once to it, and counts one more
  reduction; a call that raises counts none. The value reduced is the routed output,
  plus the shared expert's output on the same tokens when a shared expert exists.
\<close>

theorem moe_single_all_reduce:
  assumes ok: "DeepseekMoE_init cfg lm tp h0 = (Inr m, h1)"
  shows "(\<forall>e \<in> set (experts m). \<not> reduce_results (down_proj e)) \<and>
         (case n_shared_experts cfg of
            None \<Rightarrow> shared_experts m = None
          | Some ns \<Rightarrow>
              (\<exists>sh. shared_experts m = Some sh \<and> \<not> reduce_results (down_proj sh) \<and>
                 shape (weight (down_proj sh)) = [hidden_size cfg, moe_intermediate_size cfg * ns])) \<and>
         DeepseekMoE_forward ar h m x s =
           (case fst (DeepseekMoE_forward id h m x s) of
              Inl e \<Rightarrow> (Inl e, s)
            | Inr y \<Rightarrow> (Inr (ar y), Suc s)) \<and>
         (\<forall>y. fst (DeepseekMoE_forward id h m x s) = Inr y \<longrightarrow>
            (\<exists>routed. moe_routed h m x = Inr routed \<and>
               (case shared_experts m of
                  None \<Rightarrow> y = routed
                | Some sh \<Rightarrow>
                    (\<exists>shared. fst (DeepseekMLP_forward id h sh x s) = Inr shared \<and>
                       y = map2 (map2 (+)) routed shared))))"
proof -
  from DeepseekMoE_init_experts [OF ok] have
    1: "\<forall>e \<in> set (experts m). \<not> reduce_results (down_proj e)"
    by (auto simp: in_set_conv_nth)
  note sh = DeepseekMoE_init_shared [OF ok]
  from sh have 2: "case n_shared_experts cfg of
            None \<Rightarrow> shared_experts m = None
          | Some ns \<Rightarrow>
              (\<exists>sh. shared_experts m = Some sh \<and> \<not> reduce_results (down_proj sh) \<and>
                 shape (weight (down_proj sh)) = [hidden_size cfg, moe_intermediate_size cfg * ns])"
    by simp
  let ?three = "DeepseekMoE_forward ar h m x s =
           (case fst (DeepseekMoE_forward id h m x s) of
              Inl e \<Rightarrow> (Inl e, s)
            | Inr y \<Rightarrow> (Inr (ar y), Suc s))"
  let ?four = "\<forall>y. fst (DeepseekMoE_forward id h m x s) = Inr y \<longrightarrow>
            (\<exists>routed. moe_routed h m x = Inr routed \<and>
               (case shared_experts m of
                  None \<Rightarrow> y = routed
                | Some sh \<Rightarrow>
                    (\<exists>shared. fst (DeepseekMLP_forward id h sh x s) = Inr shared \<and>
                       y = map2 (map2 (+)) routed shared)))"
  have 34: "?three \<and> ?four"
  proof (cases "n_shared_experts cfg")
    case None
    with sh have c: "n_shared_experts (moe_config m) = None" "shared_experts m = None" by simp_all
    have ?three by (simp add: DeepseekMoE_forward_def c split: sum.splits)
    moreover have ?four by (simp add: DeepseekMoE_forward_def c split: sum.splits)
    ultimately show ?thesis ..
  next
    case (Some ns)
    with sh obtain sm where c: "n_shared_experts (moe_config m) = Some ns"
      "shared_experts m = Some sm" "\<not> reduce_results (down_proj sm)" by auto
    define r where "r = fst (DeepseekMLP_forward id h sm x s)"
    have l: "DeepseekMLP_forward ar h sm x s = (r, s)" "DeepseekMLP_forward id h sm x s = (r, s)"
      unfolding r_def by (rule DeepseekMLP_forward_local [OF c(3)])+
    have ?three
      by (simp add: DeepseekMoE_forward_def c l split: sum.splits)
    moreover have ?four
      by (simp add: DeepseekMoE_forward_def c l split: sum.splits)
    ultimately show ?thesis ..
  qed
  from 1 2 34 show ?thesis by blast
qed

lemma four_div_two: "Suc (Suc (Suc (Suc 0))) div Suc (Suc 0) = Suc (Suc 0)"
proof -
  have a: "Suc (Suc (Suc (Suc 0))) = 4" and b: "Suc (Suc 0) = 2" by simp_all
  show ?thesis unfolding a b by simp
qed

lemma tiny_moe_forward: "\<exists>m h1. DeepseekMoE_init tiny_config None 1 [] = (Inr m, h1) \<and>
   DeepseekMoE_forward id h1 m [[1, 0, 0, 0]] 0 = (Inr [[0, 0, 0, 0]], 1)"
  by (simp add: four_div_two DeepseekMoE_init_def tiny_config_def eval_nat_numeral DeepseekMLP_init_def
     MergedColumnParallelLinear_def RowParallelLinear_def ReplicatedLinear_def torch_empty_def
     pack_params_def flatten_dense_tensors_def unflatten_dense_tensors_def view_def numel_def
     tensor_data_def set_gate_up_data_def set_down_data_def Let_def
     DeepseekMoE_forward_def DeepseekMLP_forward_def mlp_gate_up_def linear_forward_def
     tensor_rows_def F_linear_def bindE_def dot_product_def SiluAndMul_def silu_def
     RowParallelLinear_forward_def moe_routed_def route_token_def topk_def softmax_def
     fused_moe_def expert_token_def weighted_sum_def bank_slice_def upt_rec [of 0] upt_rec [of "Suc _"])

text \<open>
  The block of the small configuration, as constructed (all weights zero), on one
  token, with a collective that adds one to every entry: one reduction, applied last.
\<close>

theorem moe_single_all_reduce_witness:
  "\<exists>m h1 sh. DeepseekMoE_init tiny_config None 1 [] = (Inr m, h1) \<and>
     DeepseekMoE_forward (map (map (\<lambda>v. v + 1))) h1 m [[1, 0, 0, 0]] 0 =
       (Inr [[1, 1, 1, 1]], 1) \<and>
     shared_experts m = Some sh \<and> \<not> reduce_results (down_proj sh) \<and>
     shape (weight (down_proj sh)) = [4, 2]"
proof -
  from tiny_moe_forward obtain m h1 where
    i: "DeepseekMoE_init tiny_config None 1 [] = (Inr m, h1)" and
    f: "DeepseekMoE_forward id h1 m [[1, 0, 0, 0]] 0 = (Inr [[0, 0, 0, 0]], 1)"
    by blast
  note t = moe_single_all_reduce [OF i, of "map (map (\<lambda>v. v + 1))" h1 "[[1, 0, 0, 0]]" 0]
  from t f have "DeepseekMoE_forward (map (map (\<lambda>v. v + 1))) h1 m [[1, 0, 0, 0]] 0 =
      (Inr [[1, 1, 1, 1]], 1)"
    by simp
  moreover from t obtain sh where "shared_experts m = Some sh" "\<not> reduce_results (down_proj sh)"
      "shape (weight (down_proj sh)) = [4, 2]"
    by (auto simp: tiny_config_def)
  ultimately show ?thesis using i by blast
qed


subsection \<open>Lengths of projections; the attention projections\<close>

lemma length_tensor_rows: "shape t = [r, c] \<Longrightarrow> length (tensor_rows h t) = r"
  by (simp add: tensor_rows_def)

lemma F_linear_length: "F_linear W x = Inr y \<Longrightarrow> length y = length W"
  by (auto simp: F_linear_def split: if_splits)

lemma mapE_all:
  "mapE f xs = Inr ys \<Longrightarrow> (\<And>x y. f x = Inr y \<Longrightarrow> P y) \<Longrightarrow> \<forall>y \<in> set ys. P y"
  by (induction xs arbitrary: ys) (auto simp: bindE_def split: sum.splits)

lemma linear_forward_lengths:
  "linear_forward h l x = Inr y \<Longrightarrow> \<forall>t \<in> set y. length t = length (tensor_rows h (weight l))"
  unfolding linear_forward_def by (erule mapE_all) (rule F_linear_length)


lemma qkv_token:
  "bindE (F_linear (Wq @ Wk @ Wv) x) (split3 (length Wq) (length Wk) (length Wv)) =
   bindE (F_linear Wq x) (\<lambda>q. bindE (F_linear Wk x) (\<lambda>k. bindE (F_linear Wv x) (\<lambda>v. Inr (q, k, v))))"
  by (auto simp: F_linear_def bindE_def split3_def)




subsection \<open>Routing inside the sparse block\<close>

lemma mapE_Inr_nth:
  "\<forall>x \<in> set xs. \<exists>y. f x = Inr y \<Longrightarrow>
   \<exists>ys. mapE f xs = Inr ys \<and> length ys = length xs \<and> (\<forall>t < length xs. f (xs ! t) = Inr (ys ! t))"
proof (induction xs)
  case Nil
  show ?case by simp
next
  case (Cons x xs)
  then obtain y ys where y: "f x = Inr y" and ys: "mapE f xs = Inr ys" "length ys = length xs"
      "\<forall>t < length xs. f (xs ! t) = Inr (ys ! t)"
    by auto
  have "\<forall>t < length (x # xs). f ((x # xs) ! t) = Inr ((y # ys) ! t)"
    using y ys(3) by (auto simp: nth_Cons split: nat.splits)
  with y ys show ?case by (auto simp: bindE_def)
qed

lemma DeepseekMoE_forward_routed:
  "fst (DeepseekMoE_forward ar h m x s) = Inr y \<Longrightarrow> \<exists>routed. moe_routed h m x = Inr routed"
  by (auto simp: DeepseekMoE_forward_def Let_def split: if_splits option.splits sum.splits prod.splits)

text \<open>
  Claim C1. Let \<^verbatim>\<open>DeepseekMoE.__init__\<close> return the block, with \<open>n\<close> routed experts and
  \<^verbatim>\<open>num_experts_per_tok\<close> at most \<open>n\<close> (beyond that \<^verbatim>\<open>torch.topk\<close> raises), and let the
  router return \<open>router_logits\<close> for the tokens \<open>x\<close>. Then the routing stage of
  \<^verbatim>\<open>forward\<close> succeeds on every token and hands the kernel exactly the weights and
  expert indices \<open>routing\<close>; every forward call that returns has run the kernel on them.
  For each token: there are \<open>n\<close> logits and the softmax of logit \<open>i\<close> is its exponential
  over the sum of the exponentials of all \<open>n\<close>; \<^verbatim>\<open>top_k\<close> distinct experts are selected,
  and no expert left out has a larger softmax value than a selected one; with
  \<^verbatim>\<open>norm_topk_prob\<close> each weight is the selected softmax value divided by the sum of the
  selected values, and the weights sum to one (to zero in the degenerate case
  \<open>top_k = 0\<close>, where nothing is selected); without it the weights are the selected
  softmax values unchanged, and their sum is the softmax mass of the selected entries.
  Values are real numbers: the float arithmetic of the source rounds, so there the
  equalities between sums hold up to rounding.
\<close>

theorem moe_routing_weights:
  assumes init: "DeepseekMoE_init cfg lm tp h0 = (Inr m, h1)"
    and n: "n_routed_experts cfg = Some n"
    and k: "num_experts_per_tok cfg \<le> n"
    and logits: "linear_forward h (gate m) x = Inr router_logits"
  shows "\<exists>routing.
      mapE (route_token (norm_topk_prob cfg) (num_experts_per_tok cfg)) router_logits = Inr routing \<and>
      moe_routed h m x =
        fused_moe h x (w1 m) (w2 m) (map fst routing) (map snd routing) \<and>
      (\<forall>y. fst (DeepseekMoE_forward ar h m x s) = Inr y \<longrightarrow>
         (\<exists>routed. fused_moe h x (w1 m) (w2 m) (map fst routing) (map snd routing) = Inr routed)) \<and>
      length router_logits = length x \<and> length routing = length x \<and>
      (\<forall>t < length x.
         length (router_logits ! t) = n \<and>
         (\<forall>i < n. softmax (router_logits ! t) ! i =
            exp (router_logits ! t ! i) / sum_list (map exp (router_logits ! t))) \<and>
         length (fst (routing ! t)) = num_experts_per_tok cfg \<and>
         length (snd (routing ! t)) = num_experts_per_tok cfg \<and>
         distinct (snd (routing ! t)) \<and> (\<forall>i \<in> set (snd (routing ! t)). i < n) \<and>
         (\<forall>j < n. j \<notin> set (snd (routing ! t)) \<longrightarrow>
            (\<forall>i \<in> set (snd (routing ! t)).
               softmax (router_logits ! t) ! j \<le> softmax (router_logits ! t) ! i)) \<and>
         (norm_topk_prob cfg \<longrightarrow>
            fst (routing ! t) =
              map (\<lambda>i. softmax (router_logits ! t) ! i /
                     sum_list (map (\<lambda>i. softmax (router_logits ! t) ! i) (snd (routing ! t))))
                (snd (routing ! t)) \<and>
            sum_list (fst (routing ! t)) = (if num_experts_per_tok cfg = 0 then 0 else 1)) \<and>
         (\<not> norm_topk_prob cfg \<longrightarrow>
            fst (routing ! t) = map (\<lambda>i. softmax (router_logits ! t) ! i) (snd (routing ! t)) \<and>
            sum_list (fst (routing ! t)) =
              sum_list (map (\<lambda>i. softmax (router_logits ! t) ! i) (snd (routing ! t)))))"
proof -
  let ?k = "num_experts_per_tok cfg"
  let ?f = "route_token (norm_topk_prob cfg) ?k"
  from DeepseekMoE_init_unfold [OF init] n have
    c: "moe_config m = cfg" "top_k m = ?k" and g: "shape (weight (gate m)) = [n, hidden_size cfg]"
    by auto
  from mapE_length [of "F_linear (tensor_rows h (weight (gate m)))" x router_logits] logits
  have lx: "length router_logits = length x" by (simp add: linear_forward_def)
  from linear_forward_lengths [OF logits] g
  have ln: "\<forall>l \<in> set router_logits. length l = n" by (simp add: length_tensor_rows)
  have ex: "\<forall>l \<in> set router_logits. \<exists>y. ?f l = Inr y"
  proof
    fix l assume "l \<in> set router_logits"
    with ln k have "?k \<le> length l" by simp
    from route_token_props [OF this, of "norm_topk_prob cfg"] show "\<exists>y. ?f l = Inr y" by blast
  qed
  from mapE_Inr_nth [OF ex] obtain routing where
    r: "mapE ?f router_logits = Inr routing" "length routing = length router_logits"
       "\<forall>t < length router_logits. ?f (router_logits ! t) = Inr (routing ! t)"
    by blast
  have mr: "moe_routed h m x = fused_moe h x (w1 m) (w2 m) (map fst routing) (map snd routing)"
    by (simp add: moe_routed_def logits bindE_def c r(1))
  have fw: "\<forall>y. fst (DeepseekMoE_forward ar h m x s) = Inr y \<longrightarrow>
         (\<exists>routed. fused_moe h x (w1 m) (w2 m) (map fst routing) (map snd routing) = Inr routed)"
    using DeepseekMoE_forward_routed [of ar h m x s] mr by auto
  have tok: "length (router_logits ! t) = n \<and>
         (\<forall>i < n. softmax (router_logits ! t) ! i =
            exp (router_logits ! t ! i) / sum_list (map exp (router_logits ! t))) \<and>
         length (fst (routing ! t)) = ?k \<and>
         length (snd (routing ! t)) = ?k \<and>
         distinct (snd (routing ! t)) \<and> (\<forall>i \<in> set (snd (routing ! t)). i < n) \<and>
         (\<forall>j < n. j \<notin> set (snd (routing ! t)) \<longrightarrow>
            (\<forall>i \<in> set (snd (routing ! t)).
               softmax (router_logits ! t) ! j \<le> softmax (router_logits ! t) ! i)) \<and>
         (norm_topk_prob cfg \<longrightarrow>
            fst (routing ! t) =
              map (\<lambda>i. softmax (router_logits ! t) ! i /
                     sum_list (map (\<lambda>i. softmax (router_logits ! t) ! i) (snd (routing ! t))))
                (snd (routing ! t)) \<and>
            sum_list (fst (routing ! t)) = (if ?k = 0 then 0 else 1)) \<and>
         (\<not> norm_topk_prob cfg \<longrightarrow>
            fst (routing ! t) = map (\<lambda>i. softmax (router_logits ! t) ! i) (snd (routing ! t)) \<and>
            sum_list (fst (routing ! t)) =
              sum_list (map (\<lambda>i. softmax (router_logits ! t) ! i) (snd (routing ! t))))"
    if t: "t < length x" for t
  proof -
    let ?l = "router_logits ! t"
    from t lx ln have len: "length ?l = n" by simp
    with k have kl: "?k \<le> length ?l" by simp
    from t lx r(3) have e: "?f ?l = Inr (routing ! t)" by simp
    from route_token_props [OF kl, of "norm_topk_prob cfg"] e len
    have p: "length (fst (routing ! t)) = ?k" "length (snd (routing ! t)) = ?k"
        "distinct (snd (routing ! t))" "\<forall>i \<in> set (snd (routing ! t)). i < n"
        "\<forall>j < n. j \<notin> set (snd (routing ! t)) \<longrightarrow>
            (\<forall>i \<in> set (snd (routing ! t)). softmax ?l ! j \<le> softmax ?l ! i)"
        "norm_topk_prob cfg \<longrightarrow>
            fst (routing ! t) =
              map (\<lambda>i. softmax ?l ! i / sum_list (map (\<lambda>i. softmax ?l ! i) (snd (routing ! t))))
                (snd (routing ! t)) \<and>
            sum_list (fst (routing ! t)) = (if ?k = 0 then 0 else 1)"
        "\<not> norm_topk_prob cfg \<longrightarrow>
            fst (routing ! t) = map (\<lambda>i. softmax ?l ! i) (snd (routing ! t)) \<and>
            sum_list (fst (routing ! t)) = sum_list (map (\<lambda>i. softmax ?l ! i) (snd (routing ! t)))"
      by auto
    have sm: "\<forall>i < n. softmax ?l ! i = exp (?l ! i) / sum_list (map exp ?l)"
      using len by (simp add: softmax_nth)
    from len sm p show ?thesis by blast
  qed
  have lr: "length routing = length x" using r(2) lx by simp
  show ?thesis
    apply (intro exI [of _ routing] conjI)
         apply (rule r(1))
        apply (rule mr)
       apply (rule fw)
      apply (rule lx)
     apply (rule lr)
    apply (intro allI impI)
    apply (rule tok, assumption)
    done
qed

lemma tiny_moe_gate:
  "\<exists>m h1. DeepseekMoE_init (tiny_config\<lparr>norm_topk_prob := b\<rparr>) None 1 [] = (Inr m, h1) \<and>
     weight (gate m) = \<lparr>storage = 6, offset = 0, shape = [2, 4]\<rparr>"
  by (simp add: four_div_two DeepseekMoE_init_def tiny_config_def eval_nat_numeral DeepseekMLP_init_def
     MergedColumnParallelLinear_def RowParallelLinear_def ReplicatedLinear_def torch_empty_def
     pack_params_def flatten_dense_tensors_def unflatten_dense_tensors_def view_def numel_def
     tensor_data_def set_gate_up_data_def set_down_data_def Let_def)

lemma toy_gate_logits:
  "weight l = \<lparr>storage = 6, offset = 0, shape = [2, 4]\<rparr> \<Longrightarrow>
   linear_forward toy_gate_heap l [[1, 0, 0, 0]] = Inr [[ln 3, 0]]"
  by (simp add: linear_forward_def tensor_rows_def toy_gate_heap_def F_linear_def bindE_def
      dot_product_def upt_rec [of 0] upt_rec [of 1] upt_rec [of "Suc _"])

lemma toy_route_renorm: "route_token True 1 [ln 3, 0] = Inr ([1], [0])"
  by (simp add: route_token_def bindE_def topk_def softmax_def upt_rec [of 0] upt_rec [of 1]
      upt_rec [of "Suc _"] Let_def)

lemma toy_route_raw: "route_token False 1 [ln 3, 0] = Inr ([3 / 4], [0])"
  by (simp add: route_token_def bindE_def topk_def softmax_def upt_rec [of 0] upt_rec [of 1]
      upt_rec [of "Suc _"] Let_def)

text \<open>
  The block of the small configuration with the router weights of \<open>toy_gate_heap\<close> on
  the token (1 0 0 0): the logits are (ln 3, 0), the softmax values 3/4 and 1/4, and
  one expert is selected. With \<^verbatim>\<open>norm_topk_prob\<close> the kernel receives expert 0 with
  weight 1; without it, expert 0 with weight 3/4, less than one.
\<close>

theorem moe_routing_weights_witness:
  "(\<exists>m h1. DeepseekMoE_init tiny_config None 1 [] = (Inr m, h1) \<and>
      linear_forward toy_gate_heap (gate m) [[1, 0, 0, 0]] = Inr [[ln 3, 0]] \<and>
      moe_routed toy_gate_heap m [[1, 0, 0, 0]] =
        fused_moe toy_gate_heap [[1, 0, 0, 0]] (w1 m) (w2 m) [[1]] [[0]]) \<and>
   (\<exists>m h1. DeepseekMoE_init (tiny_config\<lparr>norm_topk_prob := False\<rparr>) None 1 [] = (Inr m, h1) \<and>
      linear_forward toy_gate_heap (gate m) [[1, 0, 0, 0]] = Inr [[ln 3, 0]] \<and>
      moe_routed toy_gate_heap m [[1, 0, 0, 0]] =
        fused_moe toy_gate_heap [[1, 0, 0, 0]] (w1 m) (w2 m) [[3 / 4]] [[0]])"
proof -
  have t: "tiny_config\<lparr>norm_topk_prob := True\<rparr> = tiny_config" by (simp add: tiny_config_def)
  from tiny_moe_gate [of True] obtain m h1 where
    i: "DeepseekMoE_init tiny_config None 1 [] = (Inr m, h1)" and
    g: "weight (gate m) = \<lparr>storage = 6, offset = 0, shape = [2, 4]\<rparr>"
    unfolding t by blast
  note l = toy_gate_logits [OF g]
  have n: "n_routed_experts tiny_config = Some 2" "num_experts_per_tok tiny_config \<le> 2"
    by (simp_all add: tiny_config_def)
  from moe_routing_weights [OF i n l] obtain routing where
    r: "mapE (route_token (norm_topk_prob tiny_config) (num_experts_per_tok tiny_config))
          [[ln 3, 0]] = Inr routing"
       "moe_routed toy_gate_heap m [[1, 0, 0, 0]] =
          fused_moe toy_gate_heap [[1, 0, 0, 0]] (w1 m) (w2 m) (map fst routing) (map snd routing)"
    by blast
  from r(1) have "routing = [([1], [0])]"
    by (auto simp: tiny_config_def toy_route_renorm [unfolded One_nat_def] bindE_def)
  with r(2) have a: "moe_routed toy_gate_heap m [[1, 0, 0, 0]] =
        fused_moe toy_gate_heap [[1, 0, 0, 0]] (w1 m) (w2 m) [[1]] [[0]]"
    by simp
  let ?c = "tiny_config\<lparr>norm_topk_prob := False\<rparr>"
  from tiny_moe_gate [of False] obtain m' h1' where
    i': "DeepseekMoE_init ?c None 1 [] = (Inr m', h1')" and
    g': "weight (gate m') = \<lparr>storage = 6, offset = 0, shape = [2, 4]\<rparr>"
    by blast
  note l' = toy_gate_logits [OF g']
  have n': "n_routed_experts ?c = Some 2" "num_experts_per_tok ?c \<le> 2"
    by (simp_all add: tiny_config_def)
  from moe_routing_weights [OF i' n' l'] obtain routing' where
    r': "mapE (route_token (norm_topk_prob ?c) (num_experts_per_tok ?c))
          [[ln 3, 0]] = Inr routing'"
       "moe_routed toy_gate_heap m' [[1, 0, 0, 0]] =
          fused_moe toy_gate_heap [[1, 0, 0, 0]] (w1 m') (w2 m') (map fst routing') (map snd routing')"
    by blast
  from r'(1) have "routing' = [([3 / 4], [0])]"
    by (auto simp: tiny_config_def toy_route_raw [unfolded One_nat_def] bindE_def)
  with r'(2) have b: "moe_routed toy_gate_heap m' [[1, 0, 0, 0]] =
        fused_moe toy_gate_heap [[1, 0, 0, 0]] (w1 m') (w2 m') [[3 / 4]] [[0]]"
    by simp
  from i l a i' l' b show ?thesis by blast
qed

subsection \<open>The attention block: projections, rotary embedding, output\<close>













end
